theory Spec2Isabelle
  imports Main "HOL-Library.Sublist"
begin

section \<open>Python values: exceptions, strings, sequences\<close>

text \<open>
  The exceptions that \<^verbatim>\<open>trello_backup.py\<close> can meet.  \<open>HTTPError s\<close> is what
  \<^verbatim>\<open>raise_for_status\<close> raises for status \<open>s\<close>; \<open>ConnectionError\<close> stands for every
  exception of the HTTP library raised when no complete response arrives;
  \<open>JSONDecodeError\<close> is raised by \<^verbatim>\<open>resp.json()\<close> on a body that is not JSON;
  \<open>ShapeError\<close> stands for the exception (an AttributeError, KeyError or TypeError) raised
  when a JSON body is not of the shape the caller reads; \<open>TypeError\<close> is raised by a call
  of a value that is not callable; \<open>OSError\<close> by a file operation.
\<close>

datatype error =
    HTTPError nat
  | ConnectionError
  | JSONDecodeError
  | ShapeError
  | ValueError
  | IndexError
  | KeyError
  | TypeError
  | OSError

text \<open>
  A Python string is a sequence of code points.  In the model a \<^typ>\<open>char\<close> is one code
  point, and the 256 values of the type are the code points below 256 (ASCII and the
  Latin-1 supplement): \<open>CHR 0xE9\<close> is the letter e with an acute accent, one character,
  as in Python.  Strings with code points from 256 on are outside the model.

  \<open>is_digit\<close> and \<open>is_alpha\<close> are the ASCII digits and letters, which is what
  \<^verbatim>\<open>urllib\<close>, \<^verbatim>\<open>ipaddress\<close> and \<^verbatim>\<open>int\<close> ask for.  \<open>isalnum\<close> is
  \<^verbatim>\<open>str.isalnum\<close>, which knows Unicode: below 256 it holds of the ASCII digits and
  letters, of the ordinal indicators (170, 186), the superscript digits (178, 179, 185),
  the micro sign (181), the fractions (188 to 190) and the letters from 192 to 255 but
  for the multiplication and division signs (215, 247).
\<close>

definition is_digit :: "char \<Rightarrow> bool" where
  "is_digit c = (48 \<le> (of_char c :: nat) \<and> (of_char c :: nat) \<le> 57)"

definition is_alpha :: "char \<Rightarrow> bool" where
  "is_alpha c =
     ((65 \<le> (of_char c :: nat) \<and> (of_char c :: nat) \<le> 90) \<or>
      (97 \<le> (of_char c :: nat) \<and> (of_char c :: nat) \<le> 122))"

definition isalnum :: "char \<Rightarrow> bool" where
  "isalnum c =
     (is_alpha c \<or> is_digit c
      \<or> (of_char c :: nat) \<in> set [170, 178, 179, 181, 185, 186, 188, 189, 190]
      \<or> (192 \<le> (of_char c :: nat) \<and> (of_char c :: nat) \<noteq> 215 \<and> (of_char c :: nat) \<noteq> 247))"

definition is_hex_digit :: "char \<Rightarrow> bool" where
  "is_hex_digit c =
     (is_digit c \<or> (65 \<le> (of_char c :: nat) \<and> (of_char c :: nat) \<le> 70)
      \<or> (97 \<le> (of_char c :: nat) \<and> (of_char c :: nat) \<le> 102))"

definition to_lower :: "char \<Rightarrow> char" where
  "to_lower c =
     (if 65 \<le> (of_char c :: nat) \<and> (of_char c :: nat) \<le> 90
      then char_of ((of_char c :: nat) + 32) else c)"

text \<open>\<^verbatim>\<open>s.split(d)\<close> for a separator of one character: never the empty list.\<close>

fun split_on :: "'a \<Rightarrow> 'a list \<Rightarrow> 'a list list" where
  "split_on d [] = [[]]"
| "split_on d (c # cs) =
     (if c = d then [] # split_on d cs
      else (case split_on d cs of
              [] \<Rightarrow> [[c]]
            | p # ps \<Rightarrow> (c # p) # ps))"

text \<open>\<^verbatim>\<open>d.join(xs)\<close>.\<close>

fun join_with :: "'a list \<Rightarrow> 'a list list \<Rightarrow> 'a list" where
  "join_with d [] = []"
| "join_with d [x] = x"
| "join_with d (x # y # ys) = x @ d @ join_with d (y # ys)"

text \<open>
  \<^verbatim>\<open>sub in s\<close> on strings is \<^term>\<open>sublist sub s\<close>: \<open>sub\<close> occurs in \<open>s\<close> as a
  contiguous run of characters.

  \<^verbatim>\<open>xs.index(x)\<close> is the first position of \<open>x\<close>, and raises ValueError when there is
  none; \<^verbatim>\<open>xs[i]\<close> counts a negative index from the end and raises IndexError out of
  range.
\<close>

fun py_index :: "'a list \<Rightarrow> 'a \<Rightarrow> error + nat" where
  "py_index [] x = Inl ValueError"
| "py_index (y # ys) x =
     (if y = x then Inr 0
      else (case py_index ys x of Inl e \<Rightarrow> Inl e | Inr i \<Rightarrow> Inr (Suc i)))"

definition py_getitem :: "'a list \<Rightarrow> int \<Rightarrow> error + 'a" where
  "py_getitem xs i =
     (if 0 \<le> i \<and> i < int (length xs) then Inr (xs ! nat i)
      else if i < 0 \<and> - int (length xs) \<le> i then Inr (xs ! nat (int (length xs) + i))
      else Inl IndexError)"

text \<open>
  \<^verbatim>\<open>int(s)\<close> on a string: blanks around the number are dropped, one sign is allowed,
  and the digits may be grouped by single underscores.  Anything else raises ValueError.
  The blanks are the ASCII ones and, of the code points from 128 on, the next-line
  character (133) and the no-break space (160).
\<close>

definition is_space :: "char \<Rightarrow> bool" where
  "is_space c =
     ((of_char c :: nat) = 32 \<or> (9 \<le> (of_char c :: nat) \<and> (of_char c :: nat) \<le> 13)
      \<or> (of_char c :: nat) = 133 \<or> (of_char c :: nat) = 160)"

definition strip :: "string \<Rightarrow> string" where
  "strip s = rev (dropWhile is_space (rev (dropWhile is_space s)))"

definition digits_ok :: "string \<Rightarrow> bool" where
  "digits_ok s =
     (case s of
        [] \<Rightarrow> False
      | c # cs \<Rightarrow> is_digit c \<and> is_digit (last (c # cs))
                 \<and> list_all (\<lambda>x. is_digit x \<or> x = CHR ''_'') (c # cs)
                 \<and> \<not> sublist ''__'' (c # cs))"

definition digits_value :: "string \<Rightarrow> int" where
  "digits_value s = foldl (\<lambda>a c. 10 * a + (int (of_char c) - 48)) 0 (filter is_digit s)"

definition py_int :: "string \<Rightarrow> error + int" where
  "py_int s =
     (case strip s of
        [] \<Rightarrow> Inl ValueError
      | c # cs \<Rightarrow>
          (let (sign, ds) = (if c = CHR ''-'' then (-1, cs)
                             else if c = CHR ''+'' then (1, cs) else (1, c # cs))
           in if digits_ok ds then Inr (sign * digits_value ds) else Inl ValueError))"

section \<open>The standard library: URL parsing and paths\<close>

text \<open>
  \<^verbatim>\<open>urllib.parse.urlparse\<close> of Python 3.11, as far as the program reads its result
  (the path) and the specification speaks of it (the host, inside the network location).
  The steps are those of the library: blanks and control characters in front are dropped
  and tabs and line breaks removed; a scheme is split off at the first colon when
  everything before it is a scheme; after \<^verbatim>\<open>//\<close> the network location runs to the
  first of \<^verbatim>\<open>/ ? #\<close>; an unmatched square bracket in it raises ValueError, and so
  does a host between brackets that is neither an IPv6 address nor an address of a future
  version; the fragment and the query are cut off; for the schemes that carry parameters,
  the parameters of the last path segment are cut off.  (The last check of the library,
  on the compatibility form of a network location that is not ASCII, never fails for
  code points below 256.)

  First the addresses, as \<^verbatim>\<open>ipaddress\<close> reads them.  An octet of an IPv4 address is
  one to three ASCII digits with no leading zero, at most 255; the address is four of
  them.  An IPv6 address may end in a scope (after \<^verbatim>\<open>%\<close>) and in an IPv4 address,
  which stands for two of its eight parts; a part is one to four hexadecimal digits; one
  \<^verbatim>\<open>::\<close> stands for one or more missing parts.
\<close>

definition ipv4_octet_ok :: "string \<Rightarrow> bool" where
  "ipv4_octet_ok t =
     (t \<noteq> [] \<and> list_all is_digit t \<and> length t \<le> 3
      \<and> (t = ''0'' \<or> take 1 t \<noteq> ''0'')
      \<and> foldl (\<lambda>a c. 10 * a + ((of_char c :: nat) - 48)) 0 t \<le> 255)"

definition ipv4_ok :: "string \<Rightarrow> bool" where
  "ipv4_ok t =
     (t \<noteq> [] \<and> length (split_on CHR ''.'' t) = 4 \<and> list_all ipv4_octet_ok (split_on CHR ''.'' t))"

definition hextet_ok :: "string \<Rightarrow> bool" where
  "hextet_ok t = (t \<noteq> [] \<and> list_all is_hex_digit t \<and> length t \<le> 4)"

text \<open>
  The parts of an IPv6 address, split at the colons.  \<open>skips\<close> are the empty parts that
  are neither first nor last; \<open>hi\<close> parts are read before the one there may be, \<open>lo\<close>
  parts after it.
\<close>

definition ipv6_parts_ok :: "string list \<Rightarrow> bool" where
  "ipv6_parts_ok parts0 =
     (3 \<le> length parts0
      \<and> (if CHR ''.'' \<in> set (last parts0) then ipv4_ok (last parts0) else True)
      \<and> (let ps = (if CHR ''.'' \<in> set (last parts0) then butlast parts0 @ [''0'', ''0''] else parts0);
              n = length ps;
              skips = filter (\<lambda>i. ps ! i = []) [1..<n - 1]
          in n \<le> 9
             \<and> (case skips of
                   [] \<Rightarrow> n = 8 \<and> list_all hextet_ok ps
                 | [k] \<Rightarrow>
                     (let hi = (if hd ps = [] then k - 1 else k);
                          lo = (if last ps = [] then n - k - 2 else n - k - 1)
                      in (if hd ps = [] then hi = 0 else True)
                         \<and> (if last ps = [] then lo = 0 else True)
                         \<and> hi + lo \<le> 7
                         \<and> list_all hextet_ok (take hi ps)
                         \<and> list_all hextet_ok (drop (n - lo) ps))
                 | _ \<Rightarrow> False)))"

definition ipv6_ok :: "string \<Rightarrow> bool" where
  "ipv6_ok t =
     (let addr = takeWhile (\<lambda>c. c \<noteq> CHR ''%'') t;
          scope = drop (Suc (length addr)) t
      in (if length addr < length t then scope \<noteq> [] \<and> CHR ''%'' \<notin> set scope else True)
         \<and> addr \<noteq> [] \<and> ipv6_parts_ok (split_on CHR '':'' addr))"

text \<open>
  An address of a future version: \<^verbatim>\<open>v\<close>, hexadecimal digits, a dot, and at least one
  more character (the library's pattern is \<^verbatim>\<open>\Av[a-fA-F0-9]+\..+\Z\<close>).
\<close>

definition ipvfuture_ok :: "string \<Rightarrow> bool" where
  "ipvfuture_ok t =
     (let h = takeWhile is_hex_digit (drop 1 t);
          r = drop (length h) (drop 1 t)
      in h \<noteq> [] \<and> take 1 r = ''.'' \<and> drop 1 r \<noteq> [] \<and> CHR 0x0A \<notin> set (drop 1 r))"

text \<open>The host between the first \<^verbatim>\<open>[\<close> and the next \<^verbatim>\<open>]\<close> of a network location.\<close>

definition bracketed_host_ok :: "string \<Rightarrow> bool" where
  "bracketed_host_ok loc =
     (let h = takeWhile (\<lambda>c. c \<noteq> CHR '']'') (drop 1 (dropWhile (\<lambda>c. c \<noteq> CHR ''['') loc))
      in if take 1 h = ''v'' then ipvfuture_ok h else ipv6_ok h)"

record parsed_url =
  scheme :: string
  netloc :: string
  path :: string

definition scheme_char :: "char \<Rightarrow> bool" where
  "scheme_char c = (is_alpha c \<or> is_digit c \<or> c = CHR ''+'' \<or> c = CHR ''-'' \<or> c = CHR ''.'')"

definition uses_params :: "string list" where
  "uses_params = ['''', ''ftp'', ''hdl'', ''prospero'', ''http'', ''imap'', ''https'',
     ''shttp'', ''rtsp'', ''rtsps'', ''rtspu'', ''sip'', ''sips'', ''mms'', ''sftp'', ''tel'']"

definition split_scheme :: "string \<Rightarrow> string \<times> string" where
  "split_scheme url =
     (let pre = takeWhile (\<lambda>c. c \<noteq> CHR '':'') url
      in if length pre < length url \<and> pre \<noteq> [] \<and> is_alpha (hd pre) \<and> list_all scheme_char pre
         then (map to_lower pre, drop (Suc (length pre)) url)
         else ('''', url))"

definition split_netloc :: "string \<Rightarrow> string \<times> string" where
  "split_netloc url =
     (if take 2 url = ''//''
      then (let rest = drop 2 url;
                loc = takeWhile (\<lambda>c. c \<noteq> CHR ''/'' \<and> c \<noteq> CHR ''?'' \<and> c \<noteq> CHR ''#'') rest
            in (loc, drop (length loc) rest))
      else ('''', url))"

definition split_params :: "string \<Rightarrow> string" where
  "split_params url =
     (let segs = split_on CHR ''/'' url
      in join_with ''/'' (butlast segs @ [takeWhile (\<lambda>c. c \<noteq> CHR '';'') (last segs)]))"

definition urlparse :: "string \<Rightarrow> error + parsed_url" where
  "urlparse url0 =
     (let url1 = filter (\<lambda>c. c \<noteq> CHR 0x09 \<and> c \<noteq> CHR 0x0A \<and> c \<noteq> CHR 0x0D)
                   (dropWhile (\<lambda>c. (of_char c :: nat) \<le> 32) url0);
          (sch, url2) = split_scheme url1;
          (loc, url3) = split_netloc url2
      in if (CHR ''['' \<in> set loc \<and> CHR '']'' \<notin> set loc) \<or> (CHR '']'' \<in> set loc \<and> CHR ''['' \<notin> set loc)
         then Inl ValueError
         else if CHR ''['' \<in> set loc \<and> CHR '']'' \<in> set loc \<and> \<not> bracketed_host_ok loc
         then Inl ValueError
         else (let url4 = takeWhile (\<lambda>c. c \<noteq> CHR ''#'') url3;
                   url5 = takeWhile (\<lambda>c. c \<noteq> CHR ''?'') url4;
                   url6 = (if sch \<in> set uses_params \<and> CHR '';'' \<in> set url5
                           then split_params url5 else url5)
               in Inr \<lparr>scheme = sch, netloc = loc, path = url6\<rparr>))"

text \<open>
  \<^verbatim>\<open>pathlib.Path\<close> on a POSIX system: a path is a root (empty for a relative path) and
  its components.  Joining a segment splits it at the slashes and drops the empty
  components and the components \<^verbatim>\<open>.\<close>; a segment that starts with a slash replaces
  what stands before it.  \<^verbatim>\<open>str\<close> of a path with no root and no component is
  \<^verbatim>\<open>.\<close>.
\<close>

datatype pathT = Path (root: string) (parts: "string list")

definition parse_segment :: "string \<Rightarrow> pathT" where
  "parse_segment s =
     Path (if take 1 s = ''/''
           then (if take 2 s = ''//'' \<and> take 3 s \<noteq> ''///'' then ''//'' else ''/'')
           else '''')
          (filter (\<lambda>p. p \<noteq> [] \<and> p \<noteq> ''.'') (split_on CHR ''/'' s))"

definition joinpath :: "pathT \<Rightarrow> string \<Rightarrow> pathT" where
  "joinpath p s =
     (let q = parse_segment s
      in if root q \<noteq> [] then q else Path (root p) (parts p @ parts q))"

definition path_str :: "pathT \<Rightarrow> string" where
  "path_str p =
     (if root p = [] \<and> parts p = [] then ''.'' else root p @ join_with ''/'' (parts p))"

definition parent :: "pathT \<Rightarrow> pathT" where
  "parent p = Path (root p) (butlast (parts p))"

section \<open>The data of the export\<close>

text \<open>
  The JSON objects the program reads, with the fields it reads.  A field read with
  \<^verbatim>\<open>.get\<close> is optional (\<open>None\<close>: the key is absent); a field that is only read
  with a subscript is taken to be present.  JSON null is not modelled.
\<close>

record attachment =
  att_url :: "string option"
  att_name :: "string option"

record card =
  card_id :: string
  card_idList :: "string option"
  card_name :: "string option"
  card_desc :: "string option"
  card_attachments :: "attachment list option"
  local_attachments :: "string list option"

record trello_list =
  list_id :: string
  list_name :: string

record board =
  board_id :: string
  board_name :: string
  board_closed :: "bool option"

record board_data =
  data_lists :: "trello_list list"
  data_cards :: "card list"

datatype json =
    JBoards "board list"
  | JBoard board_data
  | JAttachments "attachment list"

section \<open>The world: server, file system, log\<close>

text \<open>
  The server is a script of responses, one taken by each request, in order; when the
  script is used up no response arrives any more.  A response is a status, the value of
  its \<^verbatim>\<open>Retry-After\<close> header when it has one, and a body; \<open>BrokenStream\<close> is a body
  whose transfer fails before its end.
\<close>

datatype body = JsonBody json | OtherBody | BrokenStream

datatype response =
    NoResponse
  | Response (status_code: nat) (retry_after: "string option") (content: body)

datatype message =
    Exporting string string
  | Urls "string list"
  | Downloading string string
  | Failed string error
  | WroteJson string
  | Found nat
  | WroteCsv string
  | AllDone

datatype event =
    Get string "(string \<times> string) list"
  | Sleep nat
  | Print message
  | Mkdir pathT
  | WriteFile pathT
  | WriteJson pathT board_data
  | WriteCsv pathT "string list list"

text \<open>
  \<open>fs\<close> holds the paths that exist, relative to the directory \<^verbatim>\<open>trello_exports\<close>
  that \<^verbatim>\<open>main\<close> enters before anything else; the directory itself (the path with no
  component) always exists.  Paths are compared as \<^verbatim>\<open>pathlib\<close> holds them: links
  and \<^verbatim>\<open>..\<close> are not resolved.  A file operation fails only for a missing parent
  directory.  \<open>trace\<close> is everything the run has done so far, oldest first.
\<close>

record world =
  api_base_url :: string
  responses :: "response list"
  fs :: "pathT list"
  trace :: "event list"

definition emit :: "event \<Rightarrow> world \<Rightarrow> world" where
  "emit e w = w\<lparr>trace := trace w @ [e]\<rparr>"

definition path_exists :: "world \<Rightarrow> pathT \<Rightarrow> bool" where
  "path_exists w p = (parts p = [] \<or> p \<in> set (fs w))"

definition ancestors :: "pathT \<Rightarrow> pathT list" where
  "ancestors p = map (\<lambda>k. Path (root p) (take k (parts p))) [1..<Suc (length (parts p))]"

text \<open>\<^verbatim>\<open>p.mkdir(parents=True, exist_ok=True)\<close> and \<^verbatim>\<open>p.mkdir(exist_ok=True)\<close>.\<close>

definition mkdir_parents :: "pathT \<Rightarrow> world \<Rightarrow> world" where
  "mkdir_parents p w = emit (Mkdir p) (w\<lparr>fs := fs w @ filter (\<lambda>q. q \<notin> set (fs w)) (ancestors p)\<rparr>)"

definition mkdir :: "pathT \<Rightarrow> world \<Rightarrow> (error + unit) \<times> world" where
  "mkdir p w =
     (if path_exists w p then (Inr (), emit (Mkdir p) w)
      else if path_exists w (parent p)
      then (Inr (), emit (Mkdir p) (w\<lparr>fs := fs w @ [p]\<rparr>))
      else (Inl OSError, w))"

text \<open>\<^verbatim>\<open>open(p, "w")\<close>: the file exists from then on.\<close>

definition open_write :: "pathT \<Rightarrow> world \<Rightarrow> (error + unit) \<times> world" where
  "open_write p w =
     (if path_exists w (parent p)
      then (Inr (), if p \<in> set (fs w) then w else w\<lparr>fs := fs w @ [p]\<rparr>)
      else (Inl OSError, w))"

section \<open>The program\<close>

text \<open>
  The functions of \<^verbatim>\<open>trello_backup.py\<close>, each taking the world and returning its
  result, or the exception it raises, with the world it leaves.  Every request is signed
  with the credentials of the session; the credential check and the OAuth handshake that
  run when the module is loaded come before anything modelled here.
\<close>

definition DEBUG :: bool where
  "DEBUG = True"

definition DEBUG_BOARD_ID :: string where
  "DEBUG_BOARD_ID = ''5f67b24e3bf4a71838a837cf''"

subsection \<open>\<^verbatim>\<open>trello_get\<close>\<close>

text \<open>
  One request takes one response of the script.  On status 429 the function sleeps
  \<^verbatim>\<open>int(resp.headers.get("Retry-After", 3))\<close> and calls itself with the same
  arguments; \<^verbatim>\<open>time.sleep\<close> raises ValueError on a negative length.
\<close>

function trello_get :: "string \<Rightarrow> (string \<times> string) list \<Rightarrow> world \<Rightarrow> (error + json) \<times> world" where
  "trello_get endpoint params w =
     (let url = api_base_url w @ endpoint;
          w1 = emit (Get url params) w
      in case responses w of
           [] \<Rightarrow> (Inl ConnectionError, w1)
         | r # rs \<Rightarrow>
             (case r of
                NoResponse \<Rightarrow> (Inl ConnectionError, w1\<lparr>responses := rs\<rparr>)
              | Response status ra bdy \<Rightarrow>
                  if bdy = BrokenStream then (Inl ConnectionError, w1\<lparr>responses := rs\<rparr>)
                  else if status = 429 then
                    (case (case ra of None \<Rightarrow> Inr 3 | Some s \<Rightarrow> py_int s) of
                       Inl e \<Rightarrow> (Inl e, w1\<lparr>responses := rs\<rparr>)
                     | Inr n \<Rightarrow>
                         if n < 0 then (Inl ValueError, w1\<lparr>responses := rs\<rparr>)
                         else trello_get endpoint params
                                (w\<lparr>responses := rs, trace := trace w @ [Get url params, Sleep (nat n)]\<rparr>))
                  else if 400 \<le> status \<and> status < 600
                  then (Inl (HTTPError status), w1\<lparr>responses := rs\<rparr>)
                  else (case bdy of
                          JsonBody j \<Rightarrow> (Inr j, w1\<lparr>responses := rs\<rparr>)
                        | _ \<Rightarrow> (Inl JSONDecodeError, w1\<lparr>responses := rs\<rparr>))))"
  by pat_completeness auto
termination
  by (relation "measure (\<lambda>(endpoint, params, w). length (responses w))") auto

declare trello_get.simps [simp del]

subsection \<open>\<^verbatim>\<open>download_file\<close>\<close>

definition download_file :: "string \<Rightarrow> pathT \<Rightarrow> world \<Rightarrow> (error + unit) \<times> world" where
  "download_file url dest w =
     (if path_exists w dest then (Inr (), w)
      else (let w1 = emit (Get url []) w
            in case responses w of
                 [] \<Rightarrow> (Inl ConnectionError, w1)
               | r # rs \<Rightarrow>
                   (case r of
                      NoResponse \<Rightarrow> (Inl ConnectionError, w1\<lparr>responses := rs\<rparr>)
                    | Response status ra bdy \<Rightarrow>
                        if 400 \<le> status \<and> status < 600
                        then (Inl (HTTPError status), w1\<lparr>responses := rs\<rparr>)
                        else (case open_write dest (w1\<lparr>responses := rs\<rparr>) of
                                (Inl e, w2) \<Rightarrow> (Inl e, w2)
                              | (Inr u, w2) \<Rightarrow>
                                  if bdy = BrokenStream then (Inl ConnectionError, w2)
                                  else (Inr (), emit (WriteFile dest) w2)))))"

subsection \<open>\<^verbatim>\<open>export_board\<close>: classifying and locating the attachments\<close>

text \<open>\<^verbatim>\<open>att.get('url', '')\<close>, and its truth value.\<close>

definition get_url :: "attachment \<Rightarrow> string" where
  "get_url att = (case att_url att of None \<Rightarrow> [] | Some u \<Rightarrow> u)"

definition has_url :: "attachment \<Rightarrow> bool" where
  "has_url att = (get_url att \<noteq> [])"

definition is_trello_card_image :: "attachment \<Rightarrow> bool" where
  "is_trello_card_image att =
     (let url = get_url att
      in url \<noteq> [] \<and> sublist ''trello.com'' url \<and> sublist ''/cards/'' url)"

definition atts_with_images :: "attachment list \<Rightarrow> attachment list" where
  "atts_with_images atts = filter is_trello_card_image atts"

definition atts_with_urls :: "attachment list \<Rightarrow> attachment list" where
  "atts_with_urls atts = filter (\<lambda>att. has_url att \<and> \<not> is_trello_card_image att) atts"

definition slug_of :: "string \<Rightarrow> string" where
  "slug_of name = map (\<lambda>c. if isalnum c then c else CHR ''_'') name"

definition safe_name_of :: "string \<Rightarrow> string" where
  "safe_name_of filename =
     map (\<lambda>ch. if isalnum ch \<or> ch \<in> set ''._-'' then ch else CHR ''_'') filename"

text \<open>
  The attachment id: the part after the first part \<^verbatim>\<open>attachments\<close>, inside
  \<^verbatim>\<open>try ... except (ValueError, IndexError)\<close>.
\<close>

definition attachment_id_of :: "string list \<Rightarrow> error + string" where
  "attachment_id_of path_parts =
     (case (case py_index path_parts ''attachments'' of
              Inl e \<Rightarrow> Inl e
            | Inr i \<Rightarrow> py_getitem path_parts (int i + 1)) of
        Inl e \<Rightarrow> if e = ValueError \<or> e = IndexError then Inr ''unknown'' else Inl e
      | Inr a \<Rightarrow> Inr a)"

text \<open>\<^verbatim>\<open>att.get('name') or path_parts[-1]\<close>; the parts of a path are never empty.\<close>

definition filename_of :: "attachment \<Rightarrow> string list \<Rightarrow> string" where
  "filename_of att path_parts =
     (case att_name att of
        None \<Rightarrow> last path_parts
      | Some n \<Rightarrow> if n \<noteq> [] then n else last path_parts)"

text \<open>
  Where a native attachment goes: the lines of the loop body that compute
  \<^verbatim>\<open>attachment_id\<close>, \<^verbatim>\<open>att_dir\<close>, \<^verbatim>\<open>safe_name\<close> and \<^verbatim>\<open>dest\<close>.  They read
  nothing but the board directory, the card id and the attachment, and only
  \<^verbatim>\<open>urlparse\<close> can raise in them.
\<close>

record location =
  attachment_id :: string
  att_dir :: pathT
  safe_name :: string
  dest :: pathT

definition locate :: "pathT \<Rightarrow> string \<Rightarrow> attachment \<Rightarrow> error + location" where
  "locate board_dir cid att =
     (case att_url att of
        None \<Rightarrow> Inl TypeError
      | Some url \<Rightarrow>
          (case urlparse url of
             Inl e \<Rightarrow> Inl e
           | Inr pu \<Rightarrow>
               (let path_parts = split_on CHR ''/'' (path pu)
                in case attachment_id_of path_parts of
                     Inl e \<Rightarrow> Inl e
                   | Inr aid \<Rightarrow>
                       (let adir = joinpath (joinpath board_dir ''attachments'') (cid @ ''_'' @ aid);
                            sname = safe_name_of (filename_of att path_parts)
                        in Inr \<lparr>attachment_id = aid, att_dir = adir, safe_name = sname,
                                dest = joinpath adir sname\<rparr>))))"

subsection \<open>\<^verbatim>\<open>export_board\<close>: the loops\<close>

text \<open>
  The body of the loop over \<^verbatim>\<open>atts_with_images\<close>.  In the handler, the value of
  \<^verbatim>\<open>print(...)\<close>, which is \<^verbatim>\<open>None\<close>, is called with the board's arguments: the
  message is printed, then the call raises TypeError, inside the handler, so nothing
  catches it.
\<close>

definition download_image :: "pathT \<Rightarrow> string \<Rightarrow> attachment \<Rightarrow> card \<Rightarrow> world \<Rightarrow> (error + card) \<times> world" where
  "download_image board_dir cid att c w =
     (case locate board_dir cid att of
        Inl e \<Rightarrow> (Inl e, w)
      | Inr loc \<Rightarrow>
          (case mkdir (att_dir loc) w of
             (Inl e, w1) \<Rightarrow> (Inl e, w1)
           | (Inr u, w1) \<Rightarrow>
               (let w2 = emit (Print (Downloading (safe_name loc) (cid @ ''_'' @ attachment_id loc))) w1
                in case download_file (get_url att) (dest loc) w2 of
                     (Inr u, w3) \<Rightarrow>
                       (Inr (c\<lparr>local_attachments :=
                                Some ((case local_attachments c of None \<Rightarrow> [] | Some l \<Rightarrow> l)
                                      @ [path_str (dest loc)])\<rparr>), w3)
                   | (Inl e, w3) \<Rightarrow>
                       (Inl TypeError, emit (Print (Failed (safe_name loc) e)) w3))))"

fun download_images :: "pathT \<Rightarrow> string \<Rightarrow> attachment list \<Rightarrow> card \<Rightarrow> world \<Rightarrow> (error + card) \<times> world" where
  "download_images board_dir cid [] c w = (Inr c, w)"
| "download_images board_dir cid (att # atts) c w =
     (case download_image board_dir cid att c w of
        (Inl e, w1) \<Rightarrow> (Inl e, w1)
      | (Inr c1, w1) \<Rightarrow> download_images board_dir cid atts c1 w1)"

text \<open>
  \<^verbatim>\<open>card.get('attachments', []) or trello_get(f"/cards/{card['id']}/attachments")\<close>.
\<close>

definition card_atts :: "card \<Rightarrow> world \<Rightarrow> (error + attachment list) \<times> world" where
  "card_atts c w =
     (case card_attachments c of
        Some (a # as) \<Rightarrow> (Inr (a # as), w)
      | _ \<Rightarrow>
          (case trello_get (''/cards/'' @ card_id c @ ''/attachments'') [] w of
             (Inl e, w1) \<Rightarrow> (Inl e, w1)
           | (Inr (JAttachments atts), w1) \<Rightarrow> (Inr atts, w1)
           | (Inr _, w1) \<Rightarrow> (Inl ShapeError, w1)))"

text \<open>The body of the loop over the cards.\<close>

definition process_card :: "pathT \<Rightarrow> card \<Rightarrow> world \<Rightarrow> (error + card) \<times> world" where
  "process_card board_dir c w =
     (if DEBUG \<and> card_idList c \<noteq> Some DEBUG_BOARD_ID then (Inr c, w)
      else
        (case card_atts c w of
           (Inl e, w1) \<Rightarrow> (Inl e, w1)
         | (Inr atts, w1) \<Rightarrow>
             (let urls = map get_url (atts_with_urls atts);
                  c1 = (if atts_with_urls atts \<noteq> [] then c\<lparr>local_attachments := Some urls\<rparr> else c);
                  w2 = (if atts_with_urls atts \<noteq> [] then emit (Print (Urls urls)) w1 else w1)
              in if atts_with_images atts = [] then (Inr c1, w2)
                 else download_images board_dir (card_id c) (atts_with_images atts) c1
                        (mkdir_parents (joinpath board_dir ''attachments'') w2))))"

fun process_cards :: "pathT \<Rightarrow> card list \<Rightarrow> world \<Rightarrow> (error + card list) \<times> world" where
  "process_cards board_dir [] w = (Inr [], w)"
| "process_cards board_dir (c # cs) w =
     (case process_card board_dir c w of
        (Inl e, w1) \<Rightarrow> (Inl e, w1)
      | (Inr c1, w1) \<Rightarrow>
          (case process_cards board_dir cs w1 of
             (Inl e, w2) \<Rightarrow> (Inl e, w2)
           | (Inr cs1, w2) \<Rightarrow> (Inr (c1 # cs1), w2)))"

definition board_params :: "(string \<times> string) list" where
  "board_params =
     [(''lists'', ''all''), (''cards'', ''all''), (''checklists'', ''all''),
      (''card_attachments'', ''true''), (''attachment_fields'', ''name,url''),
      (''fields'', ''name,desc,closed,dateLastActivity'')]"

definition export_board :: "board \<Rightarrow> world \<Rightarrow> (error + board_data \<times> string) \<times> world" where
  "export_board b w =
     (let slug = slug_of (board_name b);
          board_dir = joinpath (Path [] []) slug;
          w0 = emit (Print (Exporting (board_name b) (board_id b))) w
      in case trello_get (''/boards/'' @ board_id b) board_params w0 of
           (Inl e, w1) \<Rightarrow> (Inl e, w1)
         | (Inr (JBoard data), w1) \<Rightarrow>
             (case process_cards board_dir (data_cards data) w1 of
                (Inl e, w2) \<Rightarrow> (Inl e, w2)
              | (Inr cs, w2) \<Rightarrow>
                  (let data1 = data\<lparr>data_cards := cs\<rparr>;
                       out_json = joinpath board_dir (''board_'' @ slug @ ''_'' @ board_id b @ ''.json'')
                   in case open_write out_json w2 of
                        (Inl e, w3) \<Rightarrow> (Inl e, w3)
                      | (Inr u, w3) \<Rightarrow>
                          (Inr (data1, board_name b),
                           emit (Print (WroteJson (path_str out_json)))
                             (emit (WriteJson out_json data1) w3))))
         | (Inr _, w1) \<Rightarrow> (Inl ShapeError, w1))"

subsection \<open>\<^verbatim>\<open>export_csv\<close> and \<^verbatim>\<open>main\<close>\<close>

definition csv_row :: "string \<Rightarrow> (string \<rightharpoonup> string) \<Rightarrow> card \<Rightarrow> error + string list" where
  "csv_row bname names c =
     (case card_idList c of
        None \<Rightarrow> Inl KeyError
      | Some l \<Rightarrow>
          Inr [bname,
               (case names l of None \<Rightarrow> [] | Some n \<Rightarrow> n),
               (case card_name c of None \<Rightarrow> [] | Some n \<Rightarrow> n),
               map (\<lambda>ch. if ch = CHR 0x0A then CHR '' '' else ch)
                 (case card_desc c of None \<Rightarrow> [] | Some d \<Rightarrow> d),
               join_with '';'' (case local_attachments c of None \<Rightarrow> [] | Some xs \<Rightarrow> xs)])"

fun csv_rows :: "string \<Rightarrow> (string \<rightharpoonup> string) \<Rightarrow> card list \<Rightarrow> error + string list list" where
  "csv_rows bname names [] = Inr []"
| "csv_rows bname names (c # cs) =
     (case csv_row bname names c of
        Inl e \<Rightarrow> Inl e
      | Inr r \<Rightarrow> (case csv_rows bname names cs of Inl e \<Rightarrow> Inl e | Inr rs \<Rightarrow> Inr (r # rs)))"

fun all_rows :: "(board_data \<times> string) list \<Rightarrow> error + string list list" where
  "all_rows [] = Inr []"
| "all_rows ((data, bname) # rest) =
     (case csv_rows bname (map_of (rev (map (\<lambda>l. (list_id l, list_name l)) (data_lists data))))
             (data_cards data) of
        Inl e \<Rightarrow> Inl e
      | Inr rs \<Rightarrow> (case all_rows rest of Inl e \<Rightarrow> Inl e | Inr rs' \<Rightarrow> Inr (rs @ rs')))"

definition header_row :: "string list" where
  "header_row = [''board'', ''list'', ''item'', ''description'', ''attachments'']"

text \<open>
  The file is opened, and exists, before the rows are computed; the rows written before
  an exception are not in the model.
\<close>

definition export_csv :: "(board_data \<times> string) list \<Rightarrow> world \<Rightarrow> (error + unit) \<times> world" where
  "export_csv all_boards w =
     (let csv_file = joinpath (Path [] []) ''trello_export.csv''
      in case open_write csv_file w of
           (Inl e, w1) \<Rightarrow> (Inl e, w1)
         | (Inr u, w1) \<Rightarrow>
             (case all_rows all_boards of
                Inl e \<Rightarrow> (Inl e, w1)
              | Inr rows \<Rightarrow>
                  (Inr (), emit (Print (WroteCsv (path_str csv_file)))
                             (emit (WriteCsv csv_file (header_row # rows)) w1))))"

text \<open>The loop of \<^verbatim>\<open>main\<close> over the active boards, with \<^verbatim>\<open>all_data\<close>.\<close>

fun export_all :: "board list \<Rightarrow> (board_data \<times> string) list \<Rightarrow> world \<Rightarrow> (error + (board_data \<times> string) list) \<times> world" where
  "export_all [] all_data w = (Inr all_data, w)"
| "export_all (b # bs) all_data w =
     (case export_board b w of
        (Inl e, w1) \<Rightarrow> (Inl e, w1)
      | (Inr r, w1) \<Rightarrow> export_all bs (all_data @ [r]) w1)"

definition active_boards :: "board list \<Rightarrow> board list" where
  "active_boards boards = filter (\<lambda>b. board_closed b \<noteq> Some True) boards"

definition main :: "world \<Rightarrow> (error + (board_data \<times> string) list) \<times> world" where
  "main w =
     (case trello_get ''/members/me/boards'' [(''fields'', ''name,closed,dateLastActivity'')] w of
        (Inl e, w1) \<Rightarrow> (Inl e, w1)
      | (Inr (JBoards boards), w1) \<Rightarrow>
          (let active = active_boards boards
           in case export_all active [] (emit (Print (Found (length active))) w1) of
                (Inl e, w2) \<Rightarrow> (Inl e, w2)
              | (Inr all_data, w2) \<Rightarrow>
                  (case export_csv all_data w2 of
                     (Inl e, w3) \<Rightarrow> (Inl e, w3)
                   | (Inr u, w3) \<Rightarrow> (Inr all_data, emit (Print AllDone) w3)))
      | (Inr _, w1) \<Rightarrow> (Inl ShapeError, w1))"

section \<open>Vocabulary of the properties\<close>

text \<open>The text recorded for a native attachment: \<^verbatim>\<open>f"{dest}"\<close>.\<close>

definition local_path :: "pathT \<Rightarrow> string \<Rightarrow> attachment \<Rightarrow> string" where
  "local_path board_dir cid att =
     (case locate board_dir cid att of Inl e \<Rightarrow> [] | Inr loc \<Rightarrow> path_str (dest loc))"

text \<open>The URLs that a trace has requested, in order.\<close>

fun requested :: "event list \<Rightarrow> string list" where
  "requested [] = []"
| "requested (Get u ps # es) = u # requested es"
| "requested (e # es) = requested es"


text \<open>
  The classifier in the words of the specification, to compare
  \<^const>\<open>is_trello_card_image\<close> with: an attachment is native when the host of its URL
  belongs to the provider's domain and the path of the URL contains \<^verbatim>\<open>/cards/\<close>.
  The host is the network location without user information and port, in lower case.
\<close>

definition hostname :: "string \<Rightarrow> string" where
  "hostname loc = map to_lower (takeWhile (\<lambda>c. c \<noteq> CHR '':'') (last (split_on CHR ''@'' loc)))"

definition provider_host :: "string \<Rightarrow> bool" where
  "provider_host h = (h = ''trello.com'' \<or> suffix ''.trello.com'' h)"

definition native_by_host :: "string \<Rightarrow> bool" where
  "native_by_host url =
     (case urlparse url of
        Inl e \<Rightarrow> False
      | Inr pu \<Rightarrow> provider_host (hostname (netloc pu)) \<and> sublist ''/cards/'' (path pu))"

section \<open>Example runs\<close>

definition board_A :: board where
  "board_A = \<lparr>board_id = ''b1'', board_name = ''A'', board_closed = Some False\<rparr>"

definition board_B :: board where
  "board_B = \<lparr>board_id = ''b2'', board_name = ''B'', board_closed = None\<rparr>"

definition board_C :: board where
  "board_C = \<lparr>board_id = ''b3'', board_name = ''C'', board_closed = Some True\<rparr>"

definition att_photo :: attachment where
  "att_photo = \<lparr>att_url = Some ''https://trello.com/1/cards/abc/attachments/XYZ/photo.png'',
                 att_name = None\<rparr>"

definition att_second :: attachment where
  "att_second = \<lparr>att_url = Some ''https://trello.com/1/cards/abc/attachments/UVW/notes.txt'',
                  att_name = Some ''notes.txt''\<rparr>"

definition att_pdf :: attachment where
  "att_pdf = \<lparr>att_url = Some ''https://example.com/file.pdf'', att_name = Some ''file.pdf''\<rparr>"

definition att_no_segment :: attachment where
  "att_no_segment = \<lparr>att_url = Some ''https://trello.com/1/cards/abc/download/photo.png'',
                      att_name = None\<rparr>"

definition att_other_host :: attachment where
  "att_other_host = \<lparr>att_url = Some ''https://example.com/trello.com/cards/x'', att_name = None\<rparr>"

definition att_dot :: attachment where
  "att_dot = \<lparr>att_url = Some ''https://trello.com/1/cards/abc/attachments/XYZ/photo.png'',
               att_name = Some ''.''\<rparr>"

definition att_bracket :: attachment where
  "att_bracket = \<lparr>att_url = Some ''http://[trello.com/cards/x'', att_name = Some ''x.png''\<rparr>"

text \<open>A card of the list that \<^const>\<open>DEBUG_BOARD_ID\<close> names, and a card of another list.\<close>

definition card_in :: "attachment list \<Rightarrow> card" where
  "card_in atts =
     \<lparr>card_id = ''abc'', card_idList = Some ''5f67b24e3bf4a71838a837cf'', card_name = Some ''first'',
      card_desc = None, card_attachments = Some atts, local_attachments = None\<rparr>"

definition card_out :: "attachment list \<Rightarrow> card" where
  "card_out atts =
     \<lparr>card_id = ''def'', card_idList = Some ''60aa00000000000000000001'', card_name = Some ''second'',
      card_desc = None, card_attachments = Some atts, local_attachments = None\<rparr>"

definition payload :: "card list \<Rightarrow> response" where
  "payload cs = Response 200 None (JsonBody (JBoard \<lparr>data_lists = [], data_cards = cs\<rparr>))"

definition boards_response :: "board list \<Rightarrow> response" where
  "boards_response bs = Response 200 None (JsonBody (JBoards bs))"

text \<open>A world with the given script, in which the directories of the boards A and B exist.\<close>

definition world_of :: "response list \<Rightarrow> world" where
  "world_of rs =
     \<lparr>api_base_url = ''https://api.trello.com/1'', responses = rs,
      fs = [Path [] [''A''], Path [] [''B'']], trace = []\<rparr>"

section \<open>Lemmas about the model\<close>

subsection \<open>Parts, indices and the attachment id\<close>

lemma split_on_not_Nil: "split_on d s \<noteq> []"
  by (induction s) (auto split: list.splits)

lemma py_getitem_Cons: "0 \<le> j \<Longrightarrow> py_getitem (z # zs) (j + 1) = py_getitem zs j"
  by (simp add: py_getitem_def nat_add_distrib)

lemma index_then_getitem:
  "(case py_index xs x of Inl e \<Rightarrow> Inl e | Inr i \<Rightarrow> py_getitem xs (int i + 1)) =
     (case dropWhile (\<lambda>s. s \<noteq> x) xs of
        [] \<Rightarrow> Inl ValueError
      | [a] \<Rightarrow> Inl IndexError
      | a # y # rest \<Rightarrow> Inr y)"
proof (induction xs)
  case Nil
  show ?case by simp
next
  case (Cons z zs)
  show ?case
  proof (cases "z = x")
    case True
    then show ?thesis by (cases zs) (simp_all add: py_getitem_def)
  next
    case False
    show ?thesis
    proof (cases "py_index zs x")
      case (Inl e)
      with False Cons show ?thesis by simp
    next
      case (Inr i)
      have "py_getitem (z # zs) (int (Suc i) + 1) = py_getitem zs (int i + 1)"
        using py_getitem_Cons [of "int i + 1" z zs] by (simp add: add.commute)
      with False Cons Inr show ?thesis by simp
    qed
  qed
qed

lemma attachment_id_of_eq:
  "attachment_id_of path_parts =
     Inr (case dropWhile (\<lambda>s. s \<noteq> ''attachments'') path_parts of
            a # y # rest \<Rightarrow> y
          | _ \<Rightarrow> ''unknown'')"
  unfolding attachment_id_of_def index_then_getitem
  by (simp split: list.splits del: dropWhile_eq_Nil_conv)

subsection \<open>The first event of a request\<close>

lemma trello_get_first_event:
  "\<exists>evs. trace (snd (trello_get endpoint params w)) =
           trace w @ Get (api_base_url w @ endpoint) params # evs"
proof (induction endpoint params w rule: trello_get.induct)
  case (1 endpoint params w)
  show ?case
  proof (cases "responses w")
    case Nil
    then show ?thesis by (subst trello_get.simps) (simp add: emit_def)
  next
    case (Cons r rs)
    show ?thesis
    proof (cases r)
      case NoResponse
      with Cons show ?thesis by (subst trello_get.simps) (simp add: emit_def)
    next
      case (Response status ra bdy)
      show ?thesis
      proof (cases "bdy \<noteq> BrokenStream \<and> status = 429")
        case False
        with Cons Response show ?thesis
          by (subst trello_get.simps) (auto simp: emit_def Let_def split: body.splits)
      next
        case True
        show ?thesis
        proof (cases "case ra of None \<Rightarrow> Inr 3 | Some s \<Rightarrow> py_int s")
          case (Inl e)
          with Cons Response True show ?thesis
            by (subst trello_get.simps) (simp add: emit_def)
        next
          case (Inr n)
          show ?thesis
          proof (cases "n < 0")
            case neg: True
            with Cons Response True Inr show ?thesis
              by (subst trello_get.simps) (simp add: emit_def)
          next
            case nonneg: False
            from "1.IH" [OF refl refl Cons Response _ _ Inr nonneg] True
            obtain evs where
              "trace (snd (trello_get endpoint params
                 (w\<lparr>responses := rs,
                    trace := trace w @ [Get (api_base_url w @ endpoint) params, Sleep (nat n)]\<rparr>))) =
               (trace w @ [Get (api_base_url w @ endpoint) params, Sleep (nat n)])
                 @ Get (api_base_url w @ endpoint) params # evs"
              by auto
            with Cons Response True Inr nonneg show ?thesis
              by (subst trello_get.simps) (simp add: emit_def)
          qed
        qed
      qed
    qed
  qed
qed

subsection \<open>Paths and names\<close>

lemma split_on_no_sep: "d \<notin> set s \<Longrightarrow> split_on d s = [s]"
  by (induction s) auto

lemma parse_segment_plain:
  assumes "CHR ''/'' \<notin> set s" and "s \<noteq> []" and "s \<noteq> ''.''"
  shows "parse_segment s = Path [] [s]"
proof -
  from assms(1,2) have "take 1 s \<noteq> ''/''" by (cases s) auto
  with assms show ?thesis by (simp add: parse_segment_def split_on_no_sep)
qed

lemma joinpath_plain:
  assumes "CHR ''/'' \<notin> set s" and "s \<noteq> []" and "s \<noteq> ''.''"
  shows "joinpath p s = Path (root p) (parts p @ [s])"
  by (simp add: joinpath_def parse_segment_plain [OF assms])

lemma slash_not_alnum: "\<not> isalnum CHR ''/''"
  by (simp add: isalnum_def is_alpha_def is_digit_def)

lemma dot_not_alnum: "\<not> isalnum CHR ''.''"
  by (simp add: isalnum_def is_alpha_def is_digit_def)

lemma slug_of_no_slash: "CHR ''/'' \<notin> set (slug_of name)"
  using slash_not_alnum by (auto simp: slug_of_def)

lemma slug_of_not_dot: "slug_of name \<noteq> ''.''"
proof
  assume "slug_of name = ''.''"
  then have "CHR ''.'' \<in> set (slug_of name)" by simp
  then show False using dot_not_alnum by (auto simp: slug_of_def split: if_splits)
qed

lemma slug_of_Nil: "slug_of name = [] \<longleftrightarrow> name = []"
  by (simp add: slug_of_def)

lemma safe_name_of_no_slash: "CHR ''/'' \<notin> set (safe_name_of filename)"
  using slash_not_alnum by (auto simp: safe_name_of_def)

lemma safe_name_of_chars:
  "length (safe_name_of filename) = length filename \<and>
   list_all (\<lambda>ch. isalnum ch \<or> ch \<in> set ''._-'') (safe_name_of filename)"
  by (induction filename) (auto simp: safe_name_of_def)

lemma locate_Inr:
  assumes "locate board_dir cid att = Inr loc"
  shows "\<exists>url pu. att_url att = Some url \<and> urlparse url = Inr pu
           \<and> attachment_id_of (split_on CHR ''/'' (path pu)) = Inr (attachment_id loc)
           \<and> att_dir loc = joinpath (joinpath board_dir ''attachments'') (cid @ ''_'' @ attachment_id loc)
           \<and> safe_name loc = safe_name_of (filename_of att (split_on CHR ''/'' (path pu)))
           \<and> dest loc = joinpath (att_dir loc) (safe_name loc)"
  using assms by (auto simp: locate_def Let_def split: option.splits sum.splits)

lemma attachment_id_no_slash:
  assumes "attachment_id_of (split_on CHR ''/'' p) = Inr aid"
  shows "CHR ''/'' \<notin> set aid"
proof -
  have parts: "\<forall>x \<in> set (split_on CHR ''/'' p). CHR ''/'' \<notin> set x"
    by (induction p) (auto split: list.splits)
  let ?d = "dropWhile (\<lambda>s. s \<noteq> ''attachments'') (split_on CHR ''/'' p)"
  have sub: "set ?d \<subseteq> set (split_on CHR ''/'' p)" by (rule set_dropWhileD [THEN subsetI])
  from assms have "aid = (case ?d of a # y # rest \<Rightarrow> y | _ \<Rightarrow> ''unknown'')"
    by (simp add: attachment_id_of_eq)
  then have "aid = ''unknown'' \<or> aid \<in> set ?d"
    by (auto split: list.splits)
  with sub parts show ?thesis by auto
qed

subsection \<open>Downloads, cards and boards\<close>

lemma open_write_exists:
  "open_write p w = (Inr u, w') \<Longrightarrow> path_exists w' p"
  by (auto simp: open_write_def path_exists_def split: if_splits)

lemma download_file_success_exists:
  assumes "download_file url d w = (Inr u, w')"
  shows "path_exists w' d"
proof (cases "path_exists w d")
  case True
  with assms show ?thesis by (simp add: download_file_def)
next
  case False
  with assms show ?thesis
    by (auto simp: download_file_def Let_def emit_def path_exists_def
          split: list.splits response.splits if_splits prod.splits sum.splits
          dest!: open_write_exists)
qed

lemma process_card_skip:
  "card_idList c \<noteq> Some DEBUG_BOARD_ID \<Longrightarrow> process_card board_dir c w = (Inr c, w)"
  by (simp add: process_card_def DEBUG_def)

lemma process_cards_all2:
  "process_cards board_dir cs w = (Inr cs', w') \<Longrightarrow>
     list_all2 (\<lambda>c c'. \<exists>w1 w2. process_card board_dir c w1 = (Inr c', w2)) cs cs'"
proof (induction cs arbitrary: w cs')
  case Nil
  then show ?case by simp
next
  case (Cons c cs)
  then show ?case
    by (auto split: prod.splits sum.splits)
qed

lemma export_board_Inr:
  assumes "export_board b w = (Inr (data', nm), w')"
  shows "\<exists>data w1 w2. trello_get (''/boards/'' @ board_id b) board_params
             (emit (Print (Exporting (board_name b) (board_id b))) w) = (Inr (JBoard data), w1)
          \<and> process_cards (joinpath (Path [] []) (slug_of (board_name b))) (data_cards data) w1
               = (Inr (data_cards data'), w2)
          \<and> data' = data\<lparr>data_cards := data_cards data'\<rparr> \<and> nm = board_name b"
  using assms
  by (auto simp: export_board_def Let_def split: prod.splits sum.splits json.splits)

lemma export_all_append:
  "export_all (xs @ ys) acc w =
     (case export_all xs acc w of
        (Inl e, w1) \<Rightarrow> (Inl e, w1)
      | (Inr acc1, w1) \<Rightarrow> export_all ys acc1 w1)"
  by (induction xs arbitrary: acc w) (auto split: prod.splits sum.splits)

lemma trello_get_http_error:
  assumes "responses w = Response s ra bdy # rs" and "bdy \<noteq> BrokenStream"
    and "400 \<le> s" and "s < 600" and "s \<noteq> 429"
  shows "trello_get endpoint params w =
           (Inl (HTTPError s),
            w\<lparr>responses := rs, trace := trace w @ [Get (api_base_url w @ endpoint) params]\<rparr>)"
  using assms by (subst trello_get.simps) (simp add: emit_def)

lemma export_board_http_error:
  assumes "responses w = Response s ra bdy # rs" and "bdy \<noteq> BrokenStream"
    and "400 \<le> s" and "s < 600" and "s \<noteq> 429"
  shows "export_board b w =
           (Inl (HTTPError s),
            w\<lparr>responses := rs,
              trace := trace w @ [Print (Exporting (board_name b) (board_id b)),
                                  Get (api_base_url w @ ''/boards/'' @ board_id b) board_params]\<rparr>)"
proof -
  let ?wa = "emit (Print (Exporting (board_name b) (board_id b))) w"
  have "responses ?wa = Response s ra bdy # rs" using assms(1) by (simp add: emit_def)
  from trello_get_http_error [OF this assms(2-5)] show ?thesis
    by (simp add: export_board_def Let_def emit_def)
qed


subsection \<open>What a card records and what it requests\<close>

lemma requested_append: "requested (xs @ ys) = requested xs @ requested ys"
  by (induction xs rule: requested.induct) auto

lemma native_has_url: "is_trello_card_image a \<Longrightarrow> has_url a"
  by (simp add: is_trello_card_image_def has_url_def Let_def)

lemma partition_length:
  "length (atts_with_urls atts) + length (atts_with_images atts) = length (filter has_url atts)"
  by (induction atts) (auto simp: atts_with_urls_def atts_with_images_def native_has_url)

lemma no_url_atts:
  "filter has_url atts = [] \<longleftrightarrow> atts_with_urls atts = [] \<and> atts_with_images atts = []"
  using partition_length [of atts] by (metis add_is_0 length_0_conv)

lemma download_image_Inr:
  assumes "download_image board_dir cid att c w = (Inr c', w')"
  shows "\<not> isl (locate board_dir cid att)
       \<and> c' = c\<lparr>local_attachments :=
                 Some ((case local_attachments c of None \<Rightarrow> [] | Some l \<Rightarrow> l)
                       @ [local_path board_dir cid att])\<rparr>"
  using assms
  by (auto simp: download_image_def local_path_def Let_def split: sum.splits prod.splits)

lemma download_images_Inr:
  "download_images board_dir cid atts c w = (Inr c', w') \<Longrightarrow>
     list_all (\<lambda>a. \<not> isl (locate board_dir cid a)) atts
     \<and> c' = (if atts = [] then c
             else c\<lparr>local_attachments :=
                     Some ((case local_attachments c of None \<Rightarrow> [] | Some l \<Rightarrow> l)
                           @ map (local_path board_dir cid) atts)\<rparr>)"
proof (induction atts arbitrary: c w)
  case Nil
  then show ?case by simp
next
  case (Cons a atts)
  from Cons.prems obtain c1 w1 where
    one: "download_image board_dir cid a c w = (Inr c1, w1)"
    and rest: "download_images board_dir cid atts c1 w1 = (Inr c', w')"
    by (auto split: prod.splits sum.splits)
  note h = download_image_Inr [OF one]
  note ih = Cons.IH [OF rest]
  show ?case
  proof (cases "atts = []")
    case True
    with h ih show ?thesis by simp
  next
    case False
    with h ih show ?thesis by simp
  qed
qed

lemma process_card_Inr:
  assumes "process_card board_dir c w = (Inr c', w')"
    and "card_idList c = Some DEBUG_BOARD_ID"
    and "card_attachments c = Some atts" and "atts \<noteq> []"
  shows "list_all (\<lambda>a. \<not> isl (locate board_dir (card_id c) a)) (atts_with_images atts)
       \<and> c' = (if filter has_url atts = [] then c
               else c\<lparr>local_attachments :=
                       Some ((if atts_with_urls atts \<noteq> [] then map get_url (atts_with_urls atts)
                              else (case local_attachments c of None \<Rightarrow> [] | Some l \<Rightarrow> l))
                             @ map (local_path board_dir (card_id c)) (atts_with_images atts))\<rparr>)"
proof -
  from assms(3,4) have ca: "card_atts c w = (Inr atts, w)"
    by (cases atts) (simp_all add: card_atts_def)
  show ?thesis
  proof (cases "atts_with_images atts = []")
    case True
    with assms(1,2) ca show ?thesis
      by (auto simp: process_card_def Let_def no_url_atts)
  next
    case False
    let ?c1 = "if atts_with_urls atts \<noteq> [] then c\<lparr>local_attachments := Some (map get_url (atts_with_urls atts))\<rparr> else c"
    from False assms(1,2) ca obtain w2 where
      "download_images board_dir (card_id c) (atts_with_images atts) ?c1 w2 = (Inr c', w')"
      by (auto simp: process_card_def Let_def split: if_splits)
    from download_images_Inr [OF this] False show ?thesis
      by (auto simp: no_url_atts)
  qed
qed

lemma requested_emit_other:
  "requested [e] = [] \<Longrightarrow> requested (trace (emit e w)) = requested (trace w)"
  by (simp add: emit_def requested_append)

lemma mkdir_requested: "requested (trace (snd (mkdir p w))) = requested (trace w)"
  by (simp add: mkdir_def emit_def requested_append)

lemma mkdir_parents_requested: "requested (trace (mkdir_parents p w)) = requested (trace w)"
  by (simp add: mkdir_parents_def emit_def requested_append)

lemma open_write_trace: "trace (snd (open_write p w)) = trace w"
  by (simp add: open_write_def)

lemma download_file_requested:
  "set (requested (trace (snd (download_file url d w)))) \<subseteq> insert url (set (requested (trace w)))"
proof (cases "path_exists w d")
  case True
  then show ?thesis by (auto simp: download_file_def)
next
  case False
  show ?thesis
  proof (cases "responses w")
    case Nil
    with False show ?thesis by (auto simp: download_file_def emit_def requested_append)
  next
    case (Cons r rs)
    show ?thesis
    proof (cases r)
      case NoResponse
      with False Cons show ?thesis by (auto simp: download_file_def emit_def requested_append)
    next
      case (Response s ra bdy)
      have "trace (snd (open_write d (emit (Get url []) w\<lparr>responses := rs\<rparr>))) = trace w @ [Get url []]"
        by (simp add: open_write_trace emit_def)
      then have "requested (trace (snd (open_write d (emit (Get url []) w\<lparr>responses := rs\<rparr>))))
                   = requested (trace w) @ [url]"
        by (simp add: requested_append)
      with False Cons Response show ?thesis
        by (auto simp: download_file_def Let_def emit_def requested_append
              split: prod.splits sum.splits)
    qed
  qed
qed

lemma download_image_requested:
  "set (requested (trace (snd (download_image board_dir cid att c w))))
     \<subseteq> insert (get_url att) (set (requested (trace w)))"
proof (cases "locate board_dir cid att")
  case (Inl e)
  then show ?thesis by (auto simp: download_image_def)
next
  case (Inr loc)
  obtain r1 w1 where m: "mkdir (att_dir loc) w = (r1, w1)" by (cases "mkdir (att_dir loc) w")
  then have t1: "requested (trace w1) = requested (trace w)"
    using mkdir_requested [of "att_dir loc" w] by simp
  show ?thesis
  proof (cases r1)
    case (Inl e)
    with Inr m t1 show ?thesis by (auto simp: download_image_def)
  next
    case (Inr u)
    let ?w2 = "emit (Print (Downloading (safe_name loc) (cid @ ''_'' @ attachment_id loc))) w1"
    have t2: "requested (trace ?w2) = requested (trace w)"
      using t1 by (simp add: requested_emit_other)
    obtain r3 w3 where d: "download_file (get_url att) (dest loc) ?w2 = (r3, w3)"
      by (cases "download_file (get_url att) (dest loc) ?w2")
    with download_file_requested [of "get_url att" "dest loc" ?w2] t2
    have t3: "set (requested (trace w3)) \<subseteq> insert (get_url att) (set (requested (trace w)))"
      by simp
    from \<open>locate board_dir cid att = Inr loc\<close> m Inr d t3 show ?thesis
      by (cases r3) (auto simp: download_image_def Let_def requested_emit_other)
  qed
qed

lemma download_images_requested:
  "set (requested (trace (snd (download_images board_dir cid atts c w))))
     \<subseteq> get_url ` set atts \<union> set (requested (trace w))"
proof (induction atts arbitrary: c w)
  case Nil
  then show ?case by simp
next
  case (Cons a atts)
  obtain r1 w1 where one: "download_image board_dir cid a c w = (r1, w1)"
    by (cases "download_image board_dir cid a c w")
  with download_image_requested [of board_dir cid a c w]
  have t1: "set (requested (trace w1)) \<subseteq> insert (get_url a) (set (requested (trace w)))" by simp
  show ?case
  proof (cases r1)
    case (Inl e)
    with one t1 show ?thesis by auto
  next
    case (Inr c1)
    with one t1 Cons.IH [of c1 w1] show ?thesis by auto
  qed
qed

lemma process_card_requested:
  assumes "card_attachments c = Some atts" and "atts \<noteq> []"
  shows "set (requested (trace (snd (process_card board_dir c w))))
           \<subseteq> get_url ` set (atts_with_images atts) \<union> set (requested (trace w))"
proof -
  from assms have ca: "card_atts c w = (Inr atts, w)"
    by (cases atts) (simp_all add: card_atts_def)
  show ?thesis
  proof (cases "DEBUG \<and> card_idList c \<noteq> Some DEBUG_BOARD_ID")
    case True
    then show ?thesis by (auto simp: process_card_def)
  next
    case False
    let ?w2 = "if atts_with_urls atts \<noteq> [] then emit (Print (Urls (map get_url (atts_with_urls atts)))) w else w"
    have t2: "requested (trace ?w2) = requested (trace w)"
      by (simp add: requested_emit_other)
    show ?thesis
    proof (cases "atts_with_images atts = []")
      case True
      with False ca t2 show ?thesis by (auto simp: process_card_def Let_def)
    next
      case ne: False
      let ?c1 = "if atts_with_urls atts \<noteq> [] then c\<lparr>local_attachments := Some (map get_url (atts_with_urls atts))\<rparr> else c"
      have "process_card board_dir c w =
              download_images board_dir (card_id c) (atts_with_images atts) ?c1
                (mkdir_parents (joinpath board_dir ''attachments'') ?w2)"
        using False ca ne by (auto simp: process_card_def Let_def)
      with download_images_requested [of board_dir "card_id c" "atts_with_images atts" ?c1
             "mkdir_parents (joinpath board_dir ''attachments'') ?w2"]
      show ?thesis by (simp add: mkdir_parents_requested t2)
    qed
  qed
qed

lemma foreign_url_not_native:
  assumes "\<not> is_trello_card_image att"
  shows "get_url att \<notin> get_url ` set (atts_with_images atts)"
proof
  assume "get_url att \<in> get_url ` set (atts_with_images atts)"
  then obtain a where "is_trello_card_image a" "get_url a = get_url att"
    by (auto simp: atts_with_images_def)
  with assms show False by (simp add: is_trello_card_image_def)
qed

lemma is_trello_card_image_iff:
  "is_trello_card_image att \<longleftrightarrow>
     (\<exists>u. att_url att = Some u \<and> u \<noteq> [] \<and> (\<exists>p s. u = p @ ''trello.com'' @ s)
          \<and> (\<exists>p s. u = p @ ''/cards/'' @ s))"
  by (cases "att_url att") (simp_all add: is_trello_card_image_def get_url_def sublist_def)

subsection \<open>The exports that a run begins\<close>















section \<open>The claims\<close>

subsection \<open>C1: a failed download\<close>

text \<open>
  Claim C1: when the download of one attachment fails, the failure is logged and the
  export goes on with the remaining attachments, cards and boards.

  The program logs the failure and then raises TypeError inside the handler, which ends
  the run.  In the run below the first of two native attachments of a card of board A
  gets status 404: the failure is the last thing printed, the second attachment and the
  board B are never requested, and their responses stay in the script.
\<close>

theorem failed_download_aborts_run:
  "fst (main (world_of [boards_response [board_A, board_B],
                        payload [card_in [att_photo, att_second]],
                        Response 404 None OtherBody,
                        Response 200 None OtherBody,
                        payload []])) = Inl TypeError
   \<and> last (trace (snd (main (world_of [boards_response [board_A, board_B],
                        payload [card_in [att_photo, att_second]],
                        Response 404 None OtherBody,
                        Response 200 None OtherBody,
                        payload []])))) = Print (Failed ''photo.png'' (HTTPError 404))
   \<and> requested (trace (snd (main (world_of [boards_response [board_A, board_B],
                        payload [card_in [att_photo, att_second]],
                        Response 404 None OtherBody,
                        Response 200 None OtherBody,
                        payload []])))) =
        [''https://api.trello.com/1/members/me/boards'',
         ''https://api.trello.com/1/boards/b1'',
         ''https://trello.com/1/cards/abc/attachments/XYZ/photo.png'']
   \<and> responses (snd (main (world_of [boards_response [board_A, board_B],
                        payload [card_in [att_photo, att_second]],
                        Response 404 None OtherBody,
                        Response 200 None OtherBody,
                        payload []]))) = [Response 200 None OtherBody, payload []]"
  by code_simp

subsection \<open>C2: an HTTP error on a board\<close>

text \<open>
  Claim C2, as stated: a non-429 HTTP error on the fetch of one board aborts only that
  board, and every remaining board is still exported.

  It fails: \<^const>\<open>main\<close> catches nothing.  With the active boards A and B and status 404
  for A, the run ends with that error, B is never requested and its response stays in
  the script.
\<close>

theorem board_fetch_error_counterexample:
  "fst (main (world_of [boards_response [board_A, board_B],
                        Response 404 None OtherBody,
                        payload []])) = Inl (HTTPError 404)
   \<and> requested (trace (snd (main (world_of [boards_response [board_A, board_B],
                        Response 404 None OtherBody,
                        payload []])))) =
        [''https://api.trello.com/1/members/me/boards'', ''https://api.trello.com/1/boards/b1'']
   \<and> responses (snd (main (world_of [boards_response [board_A, board_B],
                        Response 404 None OtherBody,
                        payload []]))) = [payload []]"
  by code_simp

text \<open>
  Claim C2, amended: a non-429 HTTP error on the fetch of a board ends the run with that
  error.  The boards before it have been exported; after the failed request nothing is
  requested, written or printed: the boards after it are not exported and the CSV file
  is not written.
\<close>

theorem board_fetch_error_aborts_run:
  assumes "trello_get ''/members/me/boards'' [(''fields'', ''name,closed,dateLastActivity'')] w
             = (Inr (JBoards boards), w0)"
    and "active_boards boards = before @ b # after"
    and "export_all before [] (emit (Print (Found (length (active_boards boards)))) w0) = (Inr exported, w1)"
    and "responses w1 = Response s ra bdy # rs" and "bdy \<noteq> BrokenStream"
    and "400 \<le> s" and "s < 600" and "s \<noteq> 429"
  shows "main w =
           (Inl (HTTPError s),
            w1\<lparr>responses := rs,
               trace := trace w1 @ [Print (Exporting (board_name b) (board_id b)),
                                   Get (api_base_url w1 @ ''/boards/'' @ board_id b) board_params]\<rparr>)"
proof -
  have "export_all (before @ b # after) [] (emit (Print (Found (length (active_boards boards)))) w0)
          = (Inl (HTTPError s),
             w1\<lparr>responses := rs,
               trace := trace w1 @ [Print (Exporting (board_name b) (board_id b)),
                                   Get (api_base_url w1 @ ''/boards/'' @ board_id b) board_params]\<rparr>)"
    using assms(3) export_board_http_error [OF assms(4-8), of b]
    by (simp add: export_all_append)
  with assms(1,2) show ?thesis by (simp add: main_def Let_def)
qed

theorem board_fetch_error_aborts_run_witness:
  "fst (main (world_of [boards_response [board_A, board_C, board_B],
                        payload [],
                        Response 500 None OtherBody])) = Inl (HTTPError 500)
   \<and> last (trace (snd (main (world_of [boards_response [board_A, board_C, board_B],
                        payload [],
                        Response 500 None OtherBody])))) =
        Get ''https://api.trello.com/1/boards/b2'' board_params"
proof -
  let ?w = "world_of [boards_response [board_A, board_C, board_B], payload [],
                      Response 500 None OtherBody]"
  let ?wa = "snd (trello_get ''/members/me/boards'' [(''fields'', ''name,closed,dateLastActivity'')] ?w)"
  let ?wb = "snd (export_all [board_A] []
                   (emit (Print (Found (length (active_boards [board_A, board_C, board_B])))) ?wa))"
  have h1: "trello_get ''/members/me/boards'' [(''fields'', ''name,closed,dateLastActivity'')] ?w
              = (Inr (JBoards [board_A, board_C, board_B]), ?wa)"
    by code_simp
  have h2: "active_boards [board_A, board_C, board_B] = [board_A] @ board_B # []"
    by code_simp
  have h3: "export_all [board_A] []
              (emit (Print (Found (length (active_boards [board_A, board_C, board_B])))) ?wa)
              = (Inr [(\<lparr>data_lists = [], data_cards = []\<rparr>, ''A'')], ?wb)"
    by code_simp
  have h4: "responses ?wb = Response 500 None OtherBody # []"
    by code_simp
  have m: "main ?w =
           (Inl (HTTPError 500),
            ?wb\<lparr>responses := [],
               trace := trace ?wb @ [Print (Exporting (board_name board_B) (board_id board_B)),
                                   Get (api_base_url ?wb @ ''/boards/'' @ board_id board_B) board_params]\<rparr>)"
    using board_fetch_error_aborts_run [OF h1 h2 h3 h4] by simp
  have u: "api_base_url ?wb @ ''/boards/'' @ board_id board_B = ''https://api.trello.com/1/boards/b2''"
    by code_simp
  from m u show ?thesis by simp
qed

subsection \<open>C3: what \<^verbatim>\<open>local_attachments\<close> holds\<close>




subsection \<open>C4: the retry after status 429\<close>

text \<open>
  Claim C4: on a response with status 429 and the header \<^verbatim>\<open>Retry-After: 2\<close>, the
  fetcher sleeps 2 and then issues the same request once more, before it looks at the new
  response; without the header it sleeps 3.

  The call equals the call on the world in which the response is taken and the request
  and the sleep are recorded, and the next thing its trace holds is the same request
  again.
\<close>

theorem trello_get_rate_limit:
  assumes "responses w = Response 429 ra bdy # rs" and "bdy \<noteq> BrokenStream"
  shows "(ra = Some ''2'' \<longrightarrow>
            trello_get endpoint params w =
              trello_get endpoint params
                (w\<lparr>responses := rs,
                   trace := trace w @ [Get (api_base_url w @ endpoint) params, Sleep 2]\<rparr>)
            \<and> (\<exists>evs. trace (snd (trello_get endpoint params w)) =
                   trace w @ [Get (api_base_url w @ endpoint) params, Sleep 2,
                              Get (api_base_url w @ endpoint) params] @ evs))
       \<and> (ra = None \<longrightarrow>
            trello_get endpoint params w =
              trello_get endpoint params
                (w\<lparr>responses := rs,
                   trace := trace w @ [Get (api_base_url w @ endpoint) params, Sleep 3]\<rparr>)
            \<and> (\<exists>evs. trace (snd (trello_get endpoint params w)) =
                   trace w @ [Get (api_base_url w @ endpoint) params, Sleep 3,
                              Get (api_base_url w @ endpoint) params] @ evs))"
proof -
  have two: "py_int ''2'' = Inr 2"
    by (simp add: py_int_def strip_def is_space_def digits_ok_def digits_value_def is_digit_def sublist_Cons_right)
  have step: "trello_get endpoint params w =
      trello_get endpoint params
        (w\<lparr>responses := rs,
           trace := trace w @ [Get (api_base_url w @ endpoint) params, Sleep (nat n)]\<rparr>)"
    if "(case ra of None \<Rightarrow> Inr 3 | Some s \<Rightarrow> py_int s) = Inr n" and "0 \<le> n" for n
    using assms that by (subst trello_get.simps) simp
  have tr: "\<exists>evs. trace (snd (trello_get endpoint params w)) =
       trace w @ [Get (api_base_url w @ endpoint) params, Sleep (nat n),
                  Get (api_base_url w @ endpoint) params] @ evs"
    if "(case ra of None \<Rightarrow> Inr 3 | Some s \<Rightarrow> py_int s) = Inr n" and "0 \<le> n" for n
    using trello_get_first_event [of endpoint params
        "w\<lparr>responses := rs,
           trace := trace w @ [Get (api_base_url w @ endpoint) params, Sleep (nat n)]\<rparr>"]
      step [OF that]
    by auto
  show ?thesis
    using step [of 2] step [of 3] tr [of 2] tr [of 3] two by auto
qed

theorem trello_get_rate_limit_witness:
  "fst (trello_get ''/members/me/boards'' [(''fields'', ''name'')]
          (world_of [Response 429 (Some ''2'') OtherBody, boards_response []])) = Inr (JBoards [])
   \<and> trace (snd (trello_get ''/members/me/boards'' [(''fields'', ''name'')]
          (world_of [Response 429 (Some ''2'') OtherBody, boards_response []]))) =
       [Get ''https://api.trello.com/1/members/me/boards'' [(''fields'', ''name'')],
        Sleep 2,
        Get ''https://api.trello.com/1/members/me/boards'' [(''fields'', ''name'')]]
   \<and> trace (snd (trello_get ''/members/me/boards'' [(''fields'', ''name'')]
          (world_of [Response 429 None OtherBody, boards_response []]))) =
       [Get ''https://api.trello.com/1/members/me/boards'' [(''fields'', ''name'')],
        Sleep 3,
        Get ''https://api.trello.com/1/members/me/boards'' [(''fields'', ''name'')]]"
proof -
  let ?p = "[(''fields'', ''name'')]"
  let ?u = "world_of [Response 429 (Some ''2'') OtherBody, boards_response []]"
  let ?v = "world_of [Response 429 None OtherBody, boards_response []]"
  have nb: "OtherBody \<noteq> BrokenStream" by simp
  have hu: "responses ?u = Response 429 (Some ''2'') OtherBody # [boards_response []]"
    by code_simp
  have hv: "responses ?v = Response 429 None OtherBody # [boards_response []]"
    by code_simp
  have eu: "trello_get ''/members/me/boards'' ?p ?u =
        trello_get ''/members/me/boards'' ?p
          (?u\<lparr>responses := [boards_response []],
              trace := trace ?u @ [Get (api_base_url ?u @ ''/members/me/boards'') ?p, Sleep 2]\<rparr>)"
    using trello_get_rate_limit [OF hu nb, of "''/members/me/boards''" ?p] by simp
  have ev: "trello_get ''/members/me/boards'' ?p ?v =
        trello_get ''/members/me/boards'' ?p
          (?v\<lparr>responses := [boards_response []],
              trace := trace ?v @ [Get (api_base_url ?v @ ''/members/me/boards'') ?p, Sleep 3]\<rparr>)"
    using trello_get_rate_limit [OF hv nb, of "''/members/me/boards''" ?p] by simp
  have ru: "fst (trello_get ''/members/me/boards'' ?p
          (?u\<lparr>responses := [boards_response []],
              trace := trace ?u @ [Get (api_base_url ?u @ ''/members/me/boards'') ?p, Sleep 2]\<rparr>))
          = Inr (JBoards [])
        \<and> trace (snd (trello_get ''/members/me/boards'' ?p
          (?u\<lparr>responses := [boards_response []],
              trace := trace ?u @ [Get (api_base_url ?u @ ''/members/me/boards'') ?p, Sleep 2]\<rparr>)))
          = [Get ''https://api.trello.com/1/members/me/boards'' ?p, Sleep 2,
             Get ''https://api.trello.com/1/members/me/boards'' ?p]"
    by code_simp
  have rv: "trace (snd (trello_get ''/members/me/boards'' ?p
          (?v\<lparr>responses := [boards_response []],
              trace := trace ?v @ [Get (api_base_url ?v @ ''/members/me/boards'') ?p, Sleep 3]\<rparr>)))
          = [Get ''https://api.trello.com/1/members/me/boards'' ?p, Sleep 3,
             Get ''https://api.trello.com/1/members/me/boards'' ?p]"
    by code_simp
  from eu ev ru rv show ?thesis by simp
qed

subsection \<open>C5: native and foreign attachments\<close>

text \<open>
  Claim C5, as stated: an attachment is native if and only if the host of its URL
  belongs to the provider's domain and the path contains \<^verbatim>\<open>/cards/\<close>; an attachment on
  another host is foreign whatever the rest of its URL, and is never downloaded.

  It fails: the program looks for the two texts anywhere in the URL.  The URL below has
  the host \<^verbatim>\<open>example.com\<close>; the program classifies it as native and requests it.
\<close>

theorem other_host_counterexample:
  "is_trello_card_image att_other_host
   \<and> urlparse (get_url att_other_host) =
       Inr \<lparr>scheme = ''https'', netloc = ''example.com'', path = ''/trello.com/cards/x''\<rparr>
   \<and> \<not> native_by_host (get_url att_other_host)
   \<and> requested (trace (snd (process_card (Path [] [''A'']) (card_in [att_other_host])
                               (world_of [Response 200 None OtherBody])))) =
       [''https://example.com/trello.com/cards/x'']"
  by code_simp

text \<open>
  Claim C5, amended: an attachment is native if and only if its URL is not empty and
  contains the text \<^verbatim>\<open>trello.com\<close> and the text \<^verbatim>\<open>/cards/\<close>, anywhere.  An
  attachment with a URL that is not native (so every attachment whose URL does not
  contain \<^verbatim>\<open>trello.com\<close>) is foreign: when its card, a card of the list
  \<^const>\<open>DEBUG_BOARD_ID\<close>, is processed, its URL is not requested, and when the card comes
  out its URL is in the card's \<^verbatim>\<open>local_attachments\<close> as it is.
\<close>

theorem classifier_is_textual:
  "(is_trello_card_image att \<longleftrightarrow>
      (\<exists>u. att_url att = Some u \<and> u \<noteq> [] \<and> (\<exists>p s. u = p @ ''trello.com'' @ s)
           \<and> (\<exists>p s. u = p @ ''/cards/'' @ s)))
   \<and> (card_idList c = Some DEBUG_BOARD_ID \<and> card_attachments c = Some atts \<and> att \<in> set atts
        \<and> has_url att \<and> \<not> is_trello_card_image att \<longrightarrow>
        (get_url att \<notin> set (requested (trace w)) \<longrightarrow>
           get_url att \<notin> set (requested (trace (snd (process_card board_dir c w)))))
        \<and> (\<forall>c'. fst (process_card board_dir c w) = Inr c' \<longrightarrow>
             (\<exists>l. local_attachments c' = Some l \<and> get_url att \<in> set l)))"
proof -
  have rec: "\<exists>l. local_attachments c' = Some l \<and> get_url att \<in> set l"
    if h: "card_idList c = Some DEBUG_BOARD_ID" "card_attachments c = Some atts" "att \<in> set atts"
      "has_url att" "\<not> is_trello_card_image att"
      and r: "fst (process_card board_dir c w) = Inr c'" for c'
  proof -
    from h(3) have ne: "atts \<noteq> []" by auto
    from h(3,4,5) have f: "att \<in> set (atts_with_urls atts)" by (simp add: atts_with_urls_def)
    then have fne: "atts_with_urls atts \<noteq> []" by auto
    then have une: "filter has_url atts \<noteq> []" by (simp add: no_url_atts)
    from r have "process_card board_dir c w = (Inr c', snd (process_card board_dir c w))"
      by (metis prod.collapse)
    from process_card_Inr [OF this h(1) h(2) ne] fne une f show ?thesis by auto
  qed
  have nodl: "get_url att \<notin> set (requested (trace (snd (process_card board_dir c w))))"
    if h: "card_attachments c = Some atts" "att \<in> set atts" "\<not> is_trello_card_image att"
      and n: "get_url att \<notin> set (requested (trace w))"
  proof -
    from h(2) have ne: "atts \<noteq> []" by auto
    from process_card_requested [OF h(1) ne, of board_dir w] foreign_url_not_native [OF h(3), of atts] n
    show ?thesis by auto
  qed
  from rec nodl is_trello_card_image_iff [of att] show ?thesis by blast
qed

theorem classifier_is_textual_witness:
  "\<not> is_trello_card_image att_pdf
   \<and> get_url att_pdf \<notin> set (requested (trace (snd (process_card (Path [] [''A''])
                                  (card_in [att_pdf, att_photo])
                                  (world_of [Response 200 None OtherBody])))))
   \<and> (\<exists>l. local_attachments
             ((card_in [att_pdf, att_photo])
                \<lparr>local_attachments :=
                   Some [''https://example.com/file.pdf'', ''A/attachments/abc_XYZ/photo.png'']\<rparr>)
             = Some l
          \<and> get_url att_pdf \<in> set l)"
proof -
  let ?w = "world_of [Response 200 None OtherBody]"
  let ?c = "card_in [att_pdf, att_photo]"
  have h: "card_idList ?c = Some DEBUG_BOARD_ID \<and> card_attachments ?c = Some [att_pdf, att_photo]
           \<and> att_pdf \<in> set [att_pdf, att_photo] \<and> has_url att_pdf \<and> \<not> is_trello_card_image att_pdf"
    by code_simp
  have n: "get_url att_pdf \<notin> set (requested (trace ?w))"
    by code_simp
  have r: "fst (process_card (Path [] [''A'']) ?c ?w) =
             Inr (?c\<lparr>local_attachments :=
                      Some [''https://example.com/file.pdf'', ''A/attachments/abc_XYZ/photo.png'']\<rparr>)"
    by code_simp
  from classifier_is_textual [of att_pdf ?c "[att_pdf, att_photo]" ?w "Path [] [''A'']"] h n r
  show ?thesis by blast
qed

subsection \<open>C6: the local path of a native attachment\<close>

text \<open>
  Claim C6, as stated: the local path of a native attachment has exactly the form
  \<^verbatim>\<open><board-slug>/attachments/<card-id>_<attachment-id>/<sanitized-name>\<close>.

  It fails where \<^verbatim>\<open>pathlib\<close> drops a component.  The attachment below is named
  \<^verbatim>\<open>.\<close>, which is its own sanitized name: its path is the directory of the
  attachment, with no fourth component.
\<close>

theorem dot_name_counterexample:
  "locate (joinpath (Path [] []) (slug_of ''A'')) ''abc'' att_dot =
     Inr \<lparr>attachment_id = ''XYZ'', att_dir = Path [] [''A'', ''attachments'', ''abc_XYZ''],
          safe_name = ''.'', dest = Path [] [''A'', ''attachments'', ''abc_XYZ'']\<rparr>
   \<and> local_path (joinpath (Path [] []) (slug_of ''A'')) ''abc'' att_dot = ''A/attachments/abc_XYZ''
   \<and> local_path (joinpath (Path [] []) (slug_of ''A'')) ''abc'' att_dot \<noteq>
       slug_of ''A'' @ ''/attachments/'' @ ''abc'' @ ''_'' @ ''XYZ'' @ ''/'' @ ''.''"
  by code_simp

text \<open>
  Claim C6, amended: the local path of a native attachment is a function of the board
  slug, the card id, the attachment id and the sanitized name: it is the
  \<^verbatim>\<open>pathlib\<close> join of the slug, \<^verbatim>\<open>attachments\<close>,
  \<^verbatim>\<open><card-id>_<attachment-id>\<close> and the sanitized name.  The sanitized name is the
  file name (the display name, or else the last part of the URL path) with every character
  that is not alphanumeric, \<^verbatim>\<open>.\<close>, \<^verbatim>\<open>_\<close> or \<^verbatim>\<open>-\<close> replaced by \<^verbatim>\<open>_\<close>.  When the
  board name and the sanitized name are not empty, the sanitized name is not \<^verbatim>\<open>.\<close>
  and the card id has no slash, the text of the path is exactly
  \<^verbatim>\<open><board-slug>/attachments/<card-id>_<attachment-id>/<sanitized-name>\<close>.
\<close>

theorem local_path_form:
  assumes "locate (joinpath (Path [] []) (slug_of name)) cid att = Inr loc"
  shows "dest loc =
           joinpath (joinpath (joinpath (joinpath (Path [] []) (slug_of name)) ''attachments'')
                      (cid @ ''_'' @ attachment_id loc)) (safe_name loc)
       \<and> (\<exists>url pu. att_url att = Some url \<and> urlparse url = Inr pu
             \<and> safe_name loc = safe_name_of (filename_of att (split_on CHR ''/'' (path pu))))
       \<and> (\<forall>filename. length (safe_name_of filename) = length filename
             \<and> (\<forall>i<length filename.
                   safe_name_of filename ! i =
                     (if isalnum (filename ! i) \<or> filename ! i = CHR ''.'' \<or> filename ! i = CHR ''_''
                         \<or> filename ! i = CHR ''-''
                      then filename ! i else CHR ''_'')))
       \<and> (name \<noteq> [] \<and> CHR ''/'' \<notin> set cid \<and> safe_name loc \<noteq> [] \<and> safe_name loc \<noteq> ''.'' \<longrightarrow>
            path_str (dest loc) =
              slug_of name @ ''/attachments/'' @ cid @ ''_'' @ attachment_id loc @ ''/'' @ safe_name loc)"
proof -
  from locate_Inr [OF assms] obtain url pu where
    u: "att_url att = Some url" "urlparse url = Inr pu"
    and aid: "attachment_id_of (split_on CHR ''/'' (path pu)) = Inr (attachment_id loc)"
    and adir: "att_dir loc = joinpath (joinpath (joinpath (Path [] []) (slug_of name)) ''attachments'')
                 (cid @ ''_'' @ attachment_id loc)"
    and sn: "safe_name loc = safe_name_of (filename_of att (split_on CHR ''/'' (path pu)))"
    and d: "dest loc = joinpath (att_dir loc) (safe_name loc)"
    by blast
  have one: "dest loc =
           joinpath (joinpath (joinpath (joinpath (Path [] []) (slug_of name)) ''attachments'')
                      (cid @ ''_'' @ attachment_id loc)) (safe_name loc)"
    using d adir by simp
  have two: "\<exists>url pu. att_url att = Some url \<and> urlparse url = Inr pu
             \<and> safe_name loc = safe_name_of (filename_of att (split_on CHR ''/'' (path pu)))"
    using u sn by blast
  have three: "\<forall>filename. length (safe_name_of filename) = length filename
             \<and> (\<forall>i<length filename.
                   safe_name_of filename ! i =
                     (if isalnum (filename ! i) \<or> filename ! i = CHR ''.'' \<or> filename ! i = CHR ''_''
                         \<or> filename ! i = CHR ''-''
                      then filename ! i else CHR ''_''))"
    by (simp add: safe_name_of_def)
  have four: "path_str (dest loc) =
              slug_of name @ ''/attachments/'' @ cid @ ''_'' @ attachment_id loc @ ''/'' @ safe_name loc"
    if h: "name \<noteq> []" "CHR ''/'' \<notin> set cid" "safe_name loc \<noteq> []" "safe_name loc \<noteq> ''.''"
  proof -
    have s1: "joinpath (Path [] []) (slug_of name) = Path [] [slug_of name]"
      using joinpath_plain [OF slug_of_no_slash _ slug_of_not_dot, of name "Path [] []"] h(1)
      by (simp add: slug_of_Nil)
    have s2: "joinpath (Path [] [slug_of name]) ''attachments'' = Path [] [slug_of name, ''attachments'']"
      by (simp add: joinpath_plain)
    have ns: "CHR ''/'' \<notin> set (cid @ ''_'' @ attachment_id loc)"
      using h(2) attachment_id_no_slash [OF aid] by simp
    have nd: "cid @ ''_'' @ attachment_id loc \<noteq> ''.''"
    proof
      assume "cid @ ''_'' @ attachment_id loc = ''.''"
      then have "CHR ''_'' \<in> set ''.''" by (metis in_set_conv_decomp append_Cons)
      then show False by simp
    qed
    have s3: "joinpath (Path [] [slug_of name, ''attachments'']) (cid @ ''_'' @ attachment_id loc)
                = Path [] [slug_of name, ''attachments'', cid @ ''_'' @ attachment_id loc]"
      using joinpath_plain [OF ns _ nd] by simp
    have nss: "CHR ''/'' \<notin> set (safe_name loc)"
      using sn safe_name_of_no_slash by simp
    have s4: "dest loc = Path [] [slug_of name, ''attachments'', cid @ ''_'' @ attachment_id loc, safe_name loc]"
      using one s1 s2 s3 joinpath_plain [OF nss h(3) h(4)] by simp
    show ?thesis
      unfolding s4 path_str_def by simp
  qed
  from one two three four show ?thesis by blast
qed

theorem local_path_form_witness:
  "locate (joinpath (Path [] []) (slug_of ''A'')) ''abc'' att_photo =
     Inr \<lparr>attachment_id = ''XYZ'', att_dir = Path [] [''A'', ''attachments'', ''abc_XYZ''],
          safe_name = ''photo.png'', dest = Path [] [''A'', ''attachments'', ''abc_XYZ'', ''photo.png'']\<rparr>
   \<and> path_str (dest \<lparr>attachment_id = ''XYZ'', att_dir = Path [] [''A'', ''attachments'', ''abc_XYZ''],
          safe_name = ''photo.png'', dest = Path [] [''A'', ''attachments'', ''abc_XYZ'', ''photo.png'']\<rparr>) =
       ''A/attachments/abc_XYZ/photo.png''"
proof -
  let ?l = "\<lparr>attachment_id = ''XYZ'', att_dir = Path [] [''A'', ''attachments'', ''abc_XYZ''],
          safe_name = ''photo.png'', dest = Path [] [''A'', ''attachments'', ''abc_XYZ'', ''photo.png'']\<rparr>"
  have h: "locate (joinpath (Path [] []) (slug_of ''A'')) ''abc'' att_photo = Inr ?l"
    by code_simp
  have s: "''A'' \<noteq> [] \<and> CHR ''/'' \<notin> set ''abc'' \<and> safe_name ?l \<noteq> [] \<and> safe_name ?l \<noteq> ''.''"
    by simp
  from local_path_form [OF h] s
  have p: "path_str (dest ?l) =
             slug_of ''A'' @ ''/attachments/'' @ ''abc'' @ ''_'' @ attachment_id ?l @ ''/'' @ safe_name ?l"
    by blast
  have e: "slug_of ''A'' @ ''/attachments/'' @ ''abc'' @ ''_'' @ attachment_id ?l @ ''/'' @ safe_name ?l
             = ''A/attachments/abc_XYZ/photo.png''"
    by code_simp
  from p e have q: "path_str (dest ?l) = ''A/attachments/abc_XYZ/photo.png''"
    by (rule trans)
  from h q show ?thesis ..
qed

subsection \<open>C7: a download that is not repeated\<close>

text \<open>
  Claim C7: when the destination exists, \<^verbatim>\<open>download_file\<close> requests nothing, writes
  nothing and returns; called twice in a row for one destination, it requests nothing
  the second time.

  With the destination there, the call returns and leaves the world as it is: nothing
  is taken from the script, nothing added to the trace or the files.  After a call that
  returns, for whichever reason, the destination exists, so the next call is of that kind.
\<close>

theorem download_file_idempotent:
  "(path_exists w d \<longrightarrow> download_file url d w = (Inr (), w))
   \<and> (fst (download_file url d w) = Inr () \<longrightarrow>
        download_file url d (snd (download_file url d w)) = (Inr (), snd (download_file url d w)))"
proof -
  have a: "download_file url d w' = (Inr (), w')" if "path_exists w' d" for w'
    using that by (simp add: download_file_def)
  have b: "path_exists (snd (download_file url d w)) d" if "fst (download_file url d w) = Inr ()"
    using download_file_success_exists [of url d w "()" "snd (download_file url d w)"] that
    by (metis prod.collapse)
  from a b show ?thesis by blast
qed

theorem download_file_idempotent_witness:
  "download_file ''https://trello.com/1/cards/abc/attachments/XYZ/photo.png'' (Path [] [''A''])
     (world_of [Response 200 None OtherBody]) = (Inr (), world_of [Response 200 None OtherBody])
   \<and> requested (trace (snd (download_file ''https://trello.com/1/cards/abc/attachments/XYZ/photo.png''
        (Path [] [''A'', ''photo.png''])
        (snd (download_file ''https://trello.com/1/cards/abc/attachments/XYZ/photo.png''
                (Path [] [''A'', ''photo.png'']) (world_of [Response 200 None OtherBody, Response 200 None OtherBody]))))))
     = [''https://trello.com/1/cards/abc/attachments/XYZ/photo.png'']
   \<and> responses (snd (download_file ''https://trello.com/1/cards/abc/attachments/XYZ/photo.png''
        (Path [] [''A'', ''photo.png''])
        (snd (download_file ''https://trello.com/1/cards/abc/attachments/XYZ/photo.png''
                (Path [] [''A'', ''photo.png'']) (world_of [Response 200 None OtherBody, Response 200 None OtherBody])))))
     = [Response 200 None OtherBody]"
proof -
  let ?u = "''https://trello.com/1/cards/abc/attachments/XYZ/photo.png''"
  let ?a = "world_of [Response 200 None OtherBody]"
  let ?b = "world_of [Response 200 None OtherBody, Response 200 None OtherBody]"
  let ?d = "Path [] [''A'', ''photo.png'']"
  have e: "path_exists ?a (Path [] [''A''])" by code_simp
  have one: "download_file ?u (Path [] [''A'']) ?a = (Inr (), ?a)"
    using download_file_idempotent [of ?a "Path [] [''A'']" ?u] e by blast
  have f: "fst (download_file ?u ?d ?b) = Inr ()" by code_simp
  have two: "download_file ?u ?d (snd (download_file ?u ?d ?b)) = (Inr (), snd (download_file ?u ?d ?b))"
    using download_file_idempotent [of ?b ?d ?u] f by blast
  have r: "requested (trace (snd (download_file ?u ?d ?b))) = [?u]
           \<and> responses (snd (download_file ?u ?d ?b)) = [Response 200 None OtherBody]"
    by code_simp
  from one two r show ?thesis by simp
qed

subsection \<open>C8: the attachment id\<close>

text \<open>
  Claim C8, as stated: for every native attachment URL the attachment id is the part of
  the path after the part \<^verbatim>\<open>attachments\<close>, or \<^verbatim>\<open>unknown\<close> when there is none, and no
  error is raised: one malformed URL never aborts the export.

  It fails for a URL that \<^verbatim>\<open>urlparse\<close> rejects, since \<^verbatim>\<open>urlparse\<close> is called outside
  the \<^verbatim>\<open>try\<close>.  The URL below has an unmatched bracket in its network location; it
  is native, has no part \<^verbatim>\<open>attachments\<close>, and ends the run with ValueError.
\<close>

theorem bracket_url_counterexample:
  "is_trello_card_image att_bracket
   \<and> locate (Path [] [''A'']) ''abc'' att_bracket = Inl ValueError
   \<and> fst (main (world_of [boards_response [board_A, board_B],
                          payload [card_in [att_bracket, att_photo]],
                          Response 200 None OtherBody,
                          payload []])) = Inl ValueError"
  by code_simp

text \<open>
  Claim C8, amended: for every native attachment URL that \<^verbatim>\<open>urlparse\<close> accepts, the
  attachment id is the part of the URL path that follows the first part
  \<^verbatim>\<open>attachments\<close>; when the path has no part \<^verbatim>\<open>attachments\<close>, or nothing follows it,
  the id is \<^verbatim>\<open>unknown\<close>, and locating the attachment raises nothing.
\<close>

theorem attachment_id_of_parsed_url:
  assumes "att_url att = Some url" and "urlparse url = Inr pu"
  shows "\<exists>loc. locate board_dir cid att = Inr loc
           \<and> attachment_id loc =
               (case dropWhile (\<lambda>s. s \<noteq> ''attachments'') (split_on CHR ''/'' (path pu)) of
                  a # y # rest \<Rightarrow> y
                | _ \<Rightarrow> ''unknown'')"
  using assms by (simp add: locate_def attachment_id_of_eq Let_def)

theorem attachment_id_of_parsed_url_witness:
  "(\<exists>loc. locate (Path [] [''A'']) ''abc'' att_photo = Inr loc \<and> attachment_id loc = ''XYZ'')
   \<and> (\<exists>loc. locate (Path [] [''A'']) ''abc'' att_no_segment = Inr loc \<and> attachment_id loc = ''unknown'')"
proof -
  have a1: "att_url att_photo = Some ''https://trello.com/1/cards/abc/attachments/XYZ/photo.png''"
    by code_simp
  have a2: "urlparse ''https://trello.com/1/cards/abc/attachments/XYZ/photo.png'' =
              Inr \<lparr>scheme = ''https'', netloc = ''trello.com'',
                   path = ''/1/cards/abc/attachments/XYZ/photo.png''\<rparr>"
    by code_simp
  have a3: "(case dropWhile (\<lambda>s. s \<noteq> ''attachments'')
                    (split_on CHR ''/'' (path \<lparr>scheme = ''https'', netloc = ''trello.com'',
                        path = ''/1/cards/abc/attachments/XYZ/photo.png''\<rparr>)) of
               a # y # rest \<Rightarrow> y | _ \<Rightarrow> ''unknown'') = ''XYZ''"
    by code_simp
  have b1: "att_url att_no_segment = Some ''https://trello.com/1/cards/abc/download/photo.png''"
    by code_simp
  have b2: "urlparse ''https://trello.com/1/cards/abc/download/photo.png'' =
              Inr \<lparr>scheme = ''https'', netloc = ''trello.com'',
                   path = ''/1/cards/abc/download/photo.png''\<rparr>"
    by code_simp
  have b3: "(case dropWhile (\<lambda>s. s \<noteq> ''attachments'')
                    (split_on CHR ''/'' (path \<lparr>scheme = ''https'', netloc = ''trello.com'',
                        path = ''/1/cards/abc/download/photo.png''\<rparr>)) of
               a # y # rest \<Rightarrow> y | _ \<Rightarrow> ''unknown'') = ''unknown''"
    by code_simp
  from attachment_id_of_parsed_url [OF a1 a2, of "Path [] [''A'']" "''abc''"]
  have one: "\<exists>loc. locate (Path [] [''A'']) ''abc'' att_photo = Inr loc \<and> attachment_id loc = ''XYZ''"
    unfolding a3 .
  from attachment_id_of_parsed_url [OF b1 b2, of "Path [] [''A'']" "''abc''"]
  have two: "\<exists>loc. locate (Path [] [''A'']) ''abc'' att_no_segment = Inr loc \<and> attachment_id loc = ''unknown''"
    unfolding b3 .
  from one two show ?thesis ..
qed

subsection \<open>C9: the boards that are exported\<close>



subsection \<open>C10: the debug switch\<close>

text \<open>
  Claim C10: with \<^const>\<open>DEBUG\<close> set, as it is, \<^verbatim>\<open>export_board\<close> does nothing for a card
  whose list is not \<^const>\<open>DEBUG_BOARD_ID\<close>: no classification, no download, no
  \<^verbatim>\<open>local_attachments\<close>, however many attachments it has.

  The loop body returns such a card and the world as they are; and in an export that
  returns, every such card comes out as it was fetched.
\<close>

theorem debug_skips_other_lists:
  "DEBUG
   \<and> (card_idList c \<noteq> Some DEBUG_BOARD_ID \<longrightarrow> process_card board_dir c w = (Inr c, w))
   \<and> (trello_get (''/boards/'' @ board_id b) board_params
         (emit (Print (Exporting (board_name b) (board_id b))) w) = (Inr (JBoard data), w1)
      \<and> export_board b w = (Inr (data', nm), w') \<longrightarrow>
        list_all2 (\<lambda>c c'. card_idList c \<noteq> Some DEBUG_BOARD_ID \<longrightarrow> c' = c)
          (data_cards data) (data_cards data'))"
proof -
  have three: "list_all2 (\<lambda>c c'. card_idList c \<noteq> Some DEBUG_BOARD_ID \<longrightarrow> c' = c)
          (data_cards data) (data_cards data')"
    if f: "trello_get (''/boards/'' @ board_id b) board_params
         (emit (Print (Exporting (board_name b) (board_id b))) w) = (Inr (JBoard data), w1)"
      and e: "export_board b w = (Inr (data', nm), w')"
  proof -
    from export_board_Inr [OF e] f obtain w2 where
      "process_cards (joinpath (Path [] []) (slug_of (board_name b))) (data_cards data) w1
               = (Inr (data_cards data'), w2)"
      by auto
    from process_cards_all2 [OF this] show ?thesis
      by (rule list_all2_mono) (auto simp: process_card_skip)
  qed
  show ?thesis using three process_card_skip by (auto simp: DEBUG_def)
qed

theorem debug_skips_other_lists_witness:
  "process_card (Path [] [''A'']) (card_out [att_pdf, att_photo, att_second])
     (world_of [Response 200 None OtherBody]) =
     (Inr (card_out [att_pdf, att_photo, att_second]), world_of [Response 200 None OtherBody])
   \<and> local_attachments (card_out [att_pdf, att_photo, att_second]) = None"
proof -
  have h: "card_idList (card_out [att_pdf, att_photo, att_second]) \<noteq> Some DEBUG_BOARD_ID"
    by code_simp
  have n: "local_attachments (card_out [att_pdf, att_photo, att_second]) = None"
    by code_simp
  from debug_skips_other_lists [of "card_out [att_pdf, att_photo, att_second]" "Path [] [''A'']"
         "world_of [Response 200 None OtherBody]"] h n
  show ?thesis by blast
qed

end
